theory Spec2Isabelle
  imports Complex_Main "HOL-Library.Word"
begin

section \<open>Data model\<close>

text \<open>
  The two engines of the repository, \<^verbatim>\<open>freud::environment::LocalDescriptors\<close>
  (LocalDescriptors.h, LocalDescriptors.cc) and
  \<^verbatim>\<open>freud::order::RotationalAutocorrelation\<close> (RotationalAutocorrelation.h), are
  embedded as functions on records of their member variables.

  \<^item> \<^verbatim>\<open>unsigned int\<close> is a 32-bit word: arithmetic wraps, and a \<^verbatim>\<open>size_t\<close>
    stored into it is truncated (\<open>of_nat\<close>).
  \<^item> \<^verbatim>\<open>size_t\<close> values index arrays that exist in memory; they are natural
    numbers.
  \<^item> \<^verbatim>\<open>float\<close> is a type parameter \<open>'a\<close> with the operations \<open>0\<close>, \<open>1\<close>,
    \<open>+\<close>, \<open>-\<close>, \<open>*\<close>, \<open>/\<close> and \<open><\<close>, of which no law is assumed unless a
    theorem says so; the library functions applied to it are collaborators
    (below).
  \<^item> A pointer to an input array is the map from index to element; the optional
    orientation array may be the null pointer (\<open>None\<close>).
  \<^item> An exception is a value of \<open>outcome\<close>; since \<^verbatim>\<open>compute\<close> may throw after it
    has touched the engine, it returns the outcome together with the engine.
\<close>

type_synonym uint = "32 word"

datatype error =
    InvalidArgument   \<comment> \<open>thrown by \<^verbatim>\<open>NeighborList::validate\<close>\<close>
  | UnsupportedMode   \<comment> \<open>\<^verbatim>\<open>std::runtime_error("Uncaught orientation mode ...")\<close>\<close>
  | NullPointer       \<comment> \<open>read through a null input pointer\<close>
  | OutOfBounds       \<comment> \<open>write outside the allocated array\<close>

datatype outcome = Returned | Raised error

subsection \<open>VectorMath.h\<close>

datatype 'a vec3 = Vec3 (vx: 'a) (vy: 'a) (vz: 'a)

datatype 'a rotmat3 = Rotmat3 (row0: "'a vec3") (row1: "'a vec3") (row2: "'a vec3")

text \<open>
  Modelled from the spec: VectorMath.h is not among the sources. \<open>dot\<close> is the inner
  product behind the spec's \<open>|rvec|\<^sup>2\<close> and "project onto the frame", and \<open>vsub\<close>
  is the displacement \<^verbatim>\<open>r_j - r_i\<close>.
\<close>

definition dot :: "'a::{plus,times} vec3 \<Rightarrow> 'a vec3 \<Rightarrow> 'a" where
  "dot a b = vx a * vx b + vy a * vy b + vz a * vz b"

definition vsub :: "'a::minus vec3 \<Rightarrow> 'a vec3 \<Rightarrow> 'a vec3" where
  "vsub a b = Vec3 (vx a - vx b) (vy a - vy b) (vz a - vz b)"

subsection \<open>Collaborators\<close>

text \<open>
  \<^verbatim>\<open>enum LocalDescriptorOrientation { LocalNeighborhood, Global, ParticleLocal }\<close>:
  an unscoped enumeration, i.e. an integer with three named values.
\<close>

type_synonym LocalDescriptorOrientation = nat

definition LocalNeighborhood :: LocalDescriptorOrientation where
  "LocalNeighborhood = 0"

definition Global :: LocalDescriptorOrientation where
  "Global = 1"

definition ParticleLocal :: LocalDescriptorOrientation where
  "ParticleLocal = 2"

text \<open>The periodic box, through the one method \<^verbatim>\<open>compute\<close> calls.\<close>

record 'a Box =
  wrap :: "'a vec3 \<Rightarrow> 'a vec3"

text \<open>
  The neighbor list, through the four methods \<^verbatim>\<open>compute\<close> calls:
  \<open>validate nl Nref Np\<close> holds when \<^verbatim>\<open>nlist->validate(Nref, Np)\<close> returns without
  throwing; \<open>getNeighbors nl\<close> is the flat array of index pairs.
\<close>

record NeighborList =
  validate :: "nat \<Rightarrow> nat \<Rightarrow> bool"
  getNeighbors :: "nat \<Rightarrow> nat"
  getNumBonds :: nat
  find_first_index :: "nat \<Rightarrow> nat"

text \<open>
  A 3 by 3 array addressed through \<^verbatim>\<open>Index2D a_i(3)\<close> (Index1D.h, not among the
  sources) is the map from the index pair \<open>(ii, jj)\<close> to the cell \<^verbatim>\<open>[a_i(ii, jj)]\<close>.
\<close>

type_synonym 'a mat33 = "nat \<Rightarrow> nat \<Rightarrow> 'a"

definition set33 :: "'a mat33 \<Rightarrow> nat \<Rightarrow> nat \<Rightarrow> 'a \<Rightarrow> 'a mat33" where
  "set33 T ii jj v = T(ii := (T ii)(jj := v))"

text \<open>
  The numerical collaborators: the eigensolver (returning eigenvalues and the
  eigenvector array), the rotation matrix of a conjugated quaternion
  (\<^verbatim>\<open>rotmat3<float>(conj(q))\<close>), the C library functions on \<^verbatim>\<open>float\<close>, the
  statement \<^verbatim>\<open>theta += 2 * M_PI\<close> and the constant \<^verbatim>\<open>M_PI\<close> narrowed to
  \<^verbatim>\<open>float\<close>, and the harmonic evaluator \<^verbatim>\<open>fsph::PointSPHEvaluator\<close>:
  \<open>sph_eval K lmax phi theta negative_m\<close> is the sequence from
  \<^verbatim>\<open>begin(negative_m)\<close> to \<^verbatim>\<open>end()\<close> after \<^verbatim>\<open>compute(phi, theta)\<close>.
\<close>

record ('a, 'q, 'c) collaborators =
  diagonalize33SymmetricMatrix :: "'a mat33 \<Rightarrow> (nat \<Rightarrow> 'a) \<times> 'a mat33"
  rotmat3_conj :: "'q \<Rightarrow> 'a rotmat3"
  sqrt_f :: "'a \<Rightarrow> 'a"
  atan2_f :: "'a \<Rightarrow> 'a \<Rightarrow> 'a"
  acos_f :: "'a \<Rightarrow> 'a"
  isnan_f :: "'a \<Rightarrow> bool"
  add_2_M_PI :: "'a \<Rightarrow> 'a"
  M_PI_f :: 'a
  sph_eval :: "uint \<Rightarrow> 'a \<Rightarrow> 'a \<Rightarrow> bool \<Rightarrow> 'c list"

section \<open>LocalDescriptors\<close>

text \<open>
  The members of the class. \<open>m_sphArray\<close> is the shared array (\<open>None\<close>: the empty
  \<^verbatim>\<open>shared_ptr\<close>), its length the number of elements allocated. \<open>allocations\<close>
  is an observer, not a member: it counts the arrays this engine has obtained
  from \<^verbatim>\<open>new[]\<close>.
\<close>

record 'c LocalDescriptors =
  m_lmax :: uint
  m_negative_m :: bool
  m_Nref :: uint
  m_nSphs :: uint
  m_sphArray :: "'c list option"
  allocations :: nat

definition LocalDescriptors_ctor :: "uint \<Rightarrow> bool \<Rightarrow> 'c LocalDescriptors" where
  "LocalDescriptors_ctor lmax negative_m =
     \<lparr>m_lmax = lmax, m_negative_m = negative_m, m_Nref = 0, m_nSphs = 0,
      m_sphArray = None, allocations = 0\<rparr>"

definition getNSphs :: "'c LocalDescriptors \<Rightarrow> uint" where
  "getNSphs s = m_nSphs s"

definition getLMax :: "'c LocalDescriptors \<Rightarrow> uint" where
  "getLMax s = m_lmax s"

definition getNP :: "'c LocalDescriptors \<Rightarrow> uint" where
  "getNP s = m_Nref s"

definition getSph :: "'c LocalDescriptors \<Rightarrow> 'c list option" where
  "getSph s = m_sphArray s"

text \<open>
  Modelled from the spec: \<^verbatim>\<open>fsph::sphCount\<close> (spherical_harmonics.hpp) is not
  among the sources. By the spec it is the closed-form count of the pairs
  \<open>(l, m)\<close> with \<open>0 \<le> m \<le> l \<le> lmax\<close>, that is \<open>(lmax+1)(lmax+2)/2\<close>. As long as
  the product \<open>(lmax+1)(lmax+2)\<close> fits in 32 bits, that is for \<open>lmax \<le> 65534\<close>,
  every way of evaluating the closed form in \<^verbatim>\<open>unsigned int\<close> gives this number.
  Beyond, the result depends on how the absent function computes, which
  neither the spec nor the sources say: it is left unspecified, and a
  statement below that holds of it holds whatever it is.
\<close>

definition fsph_sphCount :: "uint \<Rightarrow> uint" where
  "fsph_sphCount lmax =
     (if (unat lmax + 1) * (unat lmax + 2) < 2 ^ 32
      then of_nat ((unat lmax + 1) * (unat lmax + 2) div 2)
      else undefined)"

definition getSphWidth :: "'c LocalDescriptors \<Rightarrow> uint" where
  "getSphWidth s =
     fsph_sphCount (m_lmax s)
       + (if m_lmax s > 0 \<and> m_negative_m s then fsph_sphCount (m_lmax s - 1) else 0)"

text \<open>The number of array elements the engine currently owns.\<close>

definition capacity :: "'c LocalDescriptors \<Rightarrow> nat" where
  "capacity s = (case m_sphArray s of None \<Rightarrow> 0 | Some cells \<Rightarrow> length cells)"

subsection \<open>Frame construction\<close>

datatype 'a frame = Frame (rotation_0: "'a vec3") (rotation_1: "'a vec3") (rotation_2: "'a vec3")

text \<open>Lines 67 to 85: the contribution of one bond to the tensor.\<close>

definition inertia_step :: "'a::{plus,minus,times} mat33 \<Rightarrow> 'a vec3 \<Rightarrow> 'a mat33" where
  "inertia_step T rvec =
     (let rsq = dot rvec rvec;
          T = set33 T 0 0 (T 0 0 + rsq);
          T = set33 T 1 1 (T 1 1 + rsq);
          T = set33 T 2 2 (T 2 2 + rsq);
          T = set33 T 0 0 (T 0 0 - vx rvec * vx rvec);
          T = set33 T 0 1 (T 0 1 - vx rvec * vy rvec);
          T = set33 T 0 2 (T 0 2 - vx rvec * vz rvec);
          T = set33 T 1 0 (T 1 0 - vx rvec * vy rvec);
          T = set33 T 1 1 (T 1 1 - vy rvec * vy rvec);
          T = set33 T 1 2 (T 1 2 - vy rvec * vz rvec);
          T = set33 T 2 0 (T 2 0 - vx rvec * vz rvec);
          T = set33 T 2 1 (T 2 1 - vy rvec * vz rvec);
          T = set33 T 2 2 (T 2 2 - vz rvec * vz rvec)
      in T)"

text \<open>Lines 63 to 86: the loop over \<open>bond_copy\<close>.\<close>

function inertia_loop ::
  "'a::{plus,minus,times} Box \<Rightarrow> NeighborList \<Rightarrow> uint \<Rightarrow> (nat \<Rightarrow> 'a vec3) \<Rightarrow> 'a vec3 \<Rightarrow> nat \<Rightarrow>
     nat \<Rightarrow> nat \<Rightarrow> 'a mat33 \<Rightarrow> 'a mat33" where
  "inertia_loop box nlist nNeigh r r_i i bond bond_copy inertiaTensor =
     (if bond_copy < getNumBonds nlist \<and> getNeighbors nlist (2 * bond_copy) = i
           \<and> bond_copy < bond + unat nNeigh
      then let j = getNeighbors nlist (2 * bond_copy + 1);
               r_j = r j;
               rvec = wrap box (vsub r_j r_i)
           in inertia_loop box nlist nNeigh r r_i i bond (Suc bond_copy)
                (inertia_step inertiaTensor rvec)
      else inertiaTensor)"
  by pat_completeness auto
termination
  by (relation "measure (\<lambda>(box, nlist, nNeigh, r, r_i, i, bond, bond_copy, T).
        getNumBonds nlist - bond_copy)") auto

declare inertia_loop.simps [simp del]

text \<open>Lines 55 to 116: the frame of reference particle \<open>i\<close>, or the exception.\<close>

definition make_frame ::
  "('a::{zero,one,plus,minus,times}, 'q, 'c) collaborators \<Rightarrow> 'a Box \<Rightarrow> NeighborList \<Rightarrow> uint \<Rightarrow>
     (nat \<Rightarrow> 'a vec3) \<Rightarrow> (nat \<Rightarrow> 'q) option \<Rightarrow> LocalDescriptorOrientation \<Rightarrow>
     'a vec3 \<Rightarrow> nat \<Rightarrow> nat \<Rightarrow> error + 'a frame" where
  "make_frame K box nlist nNeigh r q_ref orientation r_i i bond =
     (if orientation = LocalNeighborhood then
        let inertiaTensor = inertia_loop box nlist nNeigh r r_i i bond bond (\<lambda>ii jj. 0);
            eigenvectors = snd (diagonalize33SymmetricMatrix K inertiaTensor)
        in Inr (Frame (Vec3 (eigenvectors 0 0) (eigenvectors 1 0) (eigenvectors 2 0))
                      (Vec3 (eigenvectors 0 1) (eigenvectors 1 1) (eigenvectors 2 1))
                      (Vec3 (eigenvectors 0 2) (eigenvectors 1 2) (eigenvectors 2 2)))
      else if orientation = ParticleLocal then
        (case q_ref of
           None \<Rightarrow> Inl NullPointer
         | Some q \<Rightarrow>
             let rotmat = rotmat3_conj K (q i)
             in Inr (Frame (row0 rotmat) (row1 rotmat) (row2 rotmat)))
      else if orientation = Global then
        Inr (Frame (Vec3 1 0 0) (Vec3 0 1 0) (Vec3 0 0 1))
      else Inl UnsupportedMode)"

subsection \<open>The bond loop\<close>

text \<open>Lines 126 to 138: the angles \<open>(phi, theta)\<close> handed to the evaluator.\<close>

definition bond_angles ::
  "('a::{zero,plus,times,inverse,ord}, 'q, 'c) collaborators \<Rightarrow> 'a frame \<Rightarrow> 'a vec3 \<Rightarrow> 'a \<times> 'a" where
  "bond_angles K rot rij =
     (let rsq = dot rij rij;
          bond_ij = Vec3 (dot (rotation_0 rot) rij) (dot (rotation_1 rot) rij)
                         (dot (rotation_2 rot) rij);
          magR = sqrt_f K rsq;
          theta = atan2_f K (vy bond_ij) (vx bond_ij);
          theta = (if theta < 0 then add_2_M_PI K theta else theta);
          phi = acos_f K (vz bond_ij / magR);
          phi = (if isnan_f K phi then (if vz bond_ij > 0 then 0 else M_PI_f K) else phi)
      in (phi, theta))"

text \<open>
  \<^verbatim>\<open>std::copy(first, last, &sph_array[sphCount])\<close>: the values replace the cells
  from \<open>sphCount\<close> on; leaving the allocation is undefined behaviour and is
  reported as \<open>None\<close>. Copying an empty range writes nothing.
\<close>

definition copy_to :: "'c list \<Rightarrow> nat \<Rightarrow> 'c list \<Rightarrow> 'c list option" where
  "copy_to cells sphCount vals =
     (if vals = [] then Some cells
      else if sphCount + length vals \<le> length cells
      then Some (take sphCount cells @ vals @ drop (sphCount + length vals) cells)
      else None)"

text \<open>Lines 118 to 143: the loop over the bonds of \<open>i\<close>, writing into the array.\<close>

function bond_loop ::
  "('a::{zero,plus,minus,times,inverse,ord}, 'q, 'c) collaborators \<Rightarrow> 'a Box \<Rightarrow> NeighborList \<Rightarrow> uint \<Rightarrow>
     (nat \<Rightarrow> 'a vec3) \<Rightarrow> 'c LocalDescriptors \<Rightarrow> 'a frame \<Rightarrow> 'a vec3 \<Rightarrow> nat \<Rightarrow>
     nat \<Rightarrow> nat \<Rightarrow> 'c list \<Rightarrow> outcome \<times> 'c list" where
  "bond_loop K box nlist nNeigh r s rot r_i i bond count cells =
     (if bond < getNumBonds nlist \<and> getNeighbors nlist (2 * bond) = i \<and> count < unat nNeigh
      then let sphCount = (of_nat (bond * unat (getSphWidth s)) :: uint);
               j = getNeighbors nlist (2 * bond + 1);
               r_j = r j;
               rij = wrap box (vsub r_j r_i);
               (phi, theta) = bond_angles K rot rij
           in (case copy_to cells (unat sphCount) (sph_eval K (m_lmax s) phi theta (m_negative_m s)) of
                 None \<Rightarrow> (Raised OutOfBounds, cells)
               | Some cells' \<Rightarrow>
                   bond_loop K box nlist nNeigh r s rot r_i i (Suc bond) (Suc count) cells')
      else (Returned, cells))"
  by pat_completeness auto
termination
  by (relation "measure (\<lambda>(K, box, nlist, nNeigh, r, s, rot, r_i, i, bond, count, cells).
        getNumBonds nlist - bond)") auto

declare bond_loop.simps [simp del]

subsection \<open>compute\<close>

text \<open>Lines 48 to 144: the body of the loop over the reference particles.\<close>

definition compute_particle ::
  "('a::{zero,one,plus,minus,times,inverse,ord}, 'q, 'c) collaborators \<Rightarrow> 'a Box \<Rightarrow> NeighborList \<Rightarrow>
     uint \<Rightarrow> (nat \<Rightarrow> 'a vec3) \<Rightarrow> (nat \<Rightarrow> 'a vec3) \<Rightarrow> (nat \<Rightarrow> 'q) option \<Rightarrow>
     LocalDescriptorOrientation \<Rightarrow> 'c LocalDescriptors \<Rightarrow> nat \<Rightarrow> 'c list \<Rightarrow> outcome \<times> 'c list" where
  "compute_particle K box nlist nNeigh r_ref r q_ref orientation s i cells =
     (let bond = find_first_index nlist i;
          r_i = r_ref i
      in case make_frame K box nlist nNeigh r q_ref orientation r_i i bond of
           Inl e \<Rightarrow> (Raised e, cells)
         | Inr rot \<Rightarrow> bond_loop K box nlist nNeigh r s rot r_i i bond 0 cells)"

text \<open>
  \<^verbatim>\<open>parallel_for\<close> over the range of reference particles: the bodies are run
  one after the other, and the first exception ends the loop.
\<close>

fun parallel_for ::
  "(nat \<Rightarrow> 'c list \<Rightarrow> outcome \<times> 'c list) \<Rightarrow> nat list \<Rightarrow> 'c list \<Rightarrow> outcome \<times> 'c list" where
  "parallel_for body [] cells = (Returned, cells)"
| "parallel_for body (i # br) cells =
     (case body i cells of
        (Returned, cells') \<Rightarrow> parallel_for body br cells'
      | (Raised e, cells') \<Rightarrow> (Raised e, cells'))"

text \<open>
  Lines 36 to 41: a fresh array of value-initialised elements replaces the
  shared array when the stored bond count is below the list's.
\<close>

definition reallocate :: "NeighborList \<Rightarrow> 'c::zero LocalDescriptors \<Rightarrow> 'c LocalDescriptors" where
  "reallocate nlist s =
     (if unat (m_nSphs s) < getNumBonds nlist
      then s\<lparr>m_sphArray := Some (replicate (getNumBonds nlist * unat (getSphWidth s)) 0),
             allocations := Suc (allocations s)\<rparr>
      else s)"

text \<open>
  \<^verbatim>\<open>LocalDescriptors::compute\<close>. The writes go through the raw pointer
  \<^verbatim>\<open>m_sphArray.get()\<close>: they change the cells of the array the engine holds, also
  when an exception ends the call, and a null pointer stays null.
\<close>

definition compute ::
  "('a::{zero,one,plus,minus,times,inverse,ord}, 'q, 'c::zero) collaborators \<Rightarrow> 'a Box \<Rightarrow> NeighborList \<Rightarrow>
     uint \<Rightarrow> (nat \<Rightarrow> 'a vec3) \<Rightarrow> uint \<Rightarrow> (nat \<Rightarrow> 'a vec3) \<Rightarrow> uint \<Rightarrow> (nat \<Rightarrow> 'q) option \<Rightarrow>
     LocalDescriptorOrientation \<Rightarrow> 'c LocalDescriptors \<Rightarrow> outcome \<times> 'c LocalDescriptors" where
  "compute K box nlist nNeigh r_ref Nref r Np q_ref orientation s =
     (if \<not> validate nlist (unat Nref) (unat Np) then (Raised InvalidArgument, s)
      else
        let s = reallocate nlist s;
            sph_array = (case m_sphArray s of None \<Rightarrow> [] | Some cells \<Rightarrow> cells)
        in case parallel_for (compute_particle K box nlist nNeigh r_ref r q_ref orientation s)
                  [0..<unat Nref] sph_array of
             (Raised e, cells) \<Rightarrow> (Raised e, s\<lparr>m_sphArray := map_option (\<lambda>_. cells) (m_sphArray s)\<rparr>)
           | (Returned, cells) \<Rightarrow>
               (Returned, s\<lparr>m_sphArray := map_option (\<lambda>_. cells) (m_sphArray s),
                            m_Nref := Nref, m_nSphs := of_nat (getNumBonds nlist)\<rparr>))"

section \<open>RotationalAutocorrelation\<close>

record ('a, 'c) RotationalAutocorrelation =
  m_l :: uint
  m_N :: uint
  m_Ft :: 'a
  m_RA_array :: "'c list option"
  m_factorials :: "uint list option"

text \<open>
  The default constructor \<^verbatim>\<open>RotationalAutocorrelation() {}\<close> has no initialiser
  list and an empty body: the three scalar members keep whatever the storage
  holds (the arguments below), the two \<^verbatim>\<open>shared_ptr\<close> members are
  default-constructed, i.e. empty.
\<close>

definition RotationalAutocorrelation_default ::
  "uint \<Rightarrow> uint \<Rightarrow> 'a \<Rightarrow> ('a, 'c) RotationalAutocorrelation" where
  "RotationalAutocorrelation_default storage_l storage_N storage_Ft =
     \<lparr>m_l = storage_l, m_N = storage_N, m_Ft = storage_Ft,
      m_RA_array = None, m_factorials = None\<rparr>"

text \<open>
  Lines 61 to 64: \<^verbatim>\<open>for (unsigned int i = 1; i <= m_l; i++)\<close>. For
  \<open>m_l = 2\<^sup>3\<^sup>2 - 1\<close> the condition never fails, so the loop is a partial function.
\<close>

partial_function (option) factorials_loop :: "uint \<Rightarrow> uint \<Rightarrow> uint list \<Rightarrow> uint list option" where
  "factorials_loop i l fs =
     (if i \<le> l then factorials_loop (i + 1) l (fs[unat i := i * fs ! unat (i - 1)])
      else Some fs)"

text \<open>
  \<^verbatim>\<open>RotationalAutocorrelation(unsigned int l)\<close>: \<open>None\<close> when the constructor does
  not return. The array has \<^verbatim>\<open>m_l+1\<close> elements, computed in \<^verbatim>\<open>unsigned int\<close>;
  storing \<^verbatim>\<open>[0] = 1\<close> into an array of no elements is out of bounds.
\<close>

definition RotationalAutocorrelation_ctor ::
  "uint \<Rightarrow> (error + ('a::zero, 'c) RotationalAutocorrelation) option" where
  "RotationalAutocorrelation_ctor l =
     (let fs = replicate (unat (l + 1)) (0 :: uint)
      in if fs = [] then Some (Inl OutOfBounds)
         else map_option
                (\<lambda>fs'. Inr \<lparr>m_l = l, m_N = 0, m_Ft = 0, m_RA_array = None, m_factorials = Some fs'\<rparr>)
                (factorials_loop 1 l (fs[0 := 1])))"

definition getL :: "('a, 'c) RotationalAutocorrelation \<Rightarrow> uint" where
  "getL s = m_l s"

definition getN :: "('a, 'c) RotationalAutocorrelation \<Rightarrow> uint" where
  "getN s = m_N s"

definition getRAArray :: "('a, 'c) RotationalAutocorrelation \<Rightarrow> 'c list option" where
  "getRAArray s = m_RA_array s"

definition getRotationalAutocorrelation :: "('a, 'c) RotationalAutocorrelation \<Rightarrow> 'a" where
  "getRotationalAutocorrelation s = m_Ft s"

text \<open>
  Modelled from the spec: the body of \<^verbatim>\<open>RotationalAutocorrelation::compute\<close> is not
  among the sources (the header only declares it). By the spec it stores, for
  each particle, the inner product of the hyperspherical harmonics of the
  reference and the current orientation, evaluated with the cached factorials,
  then the normalised real part of their mean, and it overwrites the stored N,
  the per-particle array and the scalar result. The two numerical steps are
  the parameters \<open>inner_product\<close> and \<open>reduce\<close>.
\<close>

definition compute_RA ::
  "(uint \<Rightarrow> uint list option \<Rightarrow> 'q \<Rightarrow> 'q \<Rightarrow> 'c) \<Rightarrow> (uint \<Rightarrow> uint \<Rightarrow> 'c list \<Rightarrow> 'a) \<Rightarrow>
     (nat \<Rightarrow> 'q) \<Rightarrow> (nat \<Rightarrow> 'q) \<Rightarrow> uint \<Rightarrow>
     ('a, 'c) RotationalAutocorrelation \<Rightarrow> ('a, 'c) RotationalAutocorrelation" where
  "compute_RA inner_product reduce ref_ors ors N s =
     (let RA_array = map (\<lambda>i. inner_product (m_l s) (m_factorials s) (ref_ors i) (ors i)) [0..<unat N]
      in s\<lparr>m_N := N, m_RA_array := Some RA_array, m_Ft := reduce (m_l s) N RA_array\<rparr>)"

text \<open>The public operations of an instance, and their effect on it.\<close>

datatype 'q RA_call =
    Call_getL | Call_getN | Call_getRAArray | Call_getRotationalAutocorrelation
  | Call_compute "nat \<Rightarrow> 'q" "nat \<Rightarrow> 'q" uint

fun perform ::
  "(uint \<Rightarrow> uint list option \<Rightarrow> 'q \<Rightarrow> 'q \<Rightarrow> 'c) \<Rightarrow> (uint \<Rightarrow> uint \<Rightarrow> 'c list \<Rightarrow> 'a) \<Rightarrow>
     ('a, 'c) RotationalAutocorrelation \<Rightarrow> 'q RA_call \<Rightarrow> ('a, 'c) RotationalAutocorrelation" where
  "perform ip rd s (Call_compute ref_ors ors N) = compute_RA ip rd ref_ors ors N s"
| "perform ip rd s _ = s"

section \<open>The properties, in the words of the specification\<close>

text \<open>
  The coefficients counted by the width formula: the pairs \<open>(l, m)\<close> with
  \<open>0 \<le> m \<le> l \<le> lmax\<close>, and the pairs with \<open>- l \<le> m < 0\<close>, \<open>l \<le> lmax\<close>.
\<close>

definition sph_pairs_nonneg :: "nat \<Rightarrow> (nat \<times> int) set" where
  "sph_pairs_nonneg lmax = (SIGMA l:{0..lmax}. {0..int l})"

definition sph_pairs_neg :: "nat \<Rightarrow> (nat \<times> int) set" where
  "sph_pairs_neg lmax = (SIGMA l:{0..lmax}. {- int l..<0})"

definition width_count :: "nat \<Rightarrow> bool \<Rightarrow> nat" where
  "width_count lmax negative_m =
     card (sph_pairs_nonneg lmax) + (if 0 < lmax \<and> negative_m then card (sph_pairs_neg lmax) else 0)"

text \<open>
  The same count with the negative orders taken through degree \<open>lmax - 1\<close>
  only, as the sentence on the width reads word for word.
\<close>

definition width_count_through_pred :: "nat \<Rightarrow> bool \<Rightarrow> nat" where
  "width_count_through_pred lmax negative_m =
     card (sph_pairs_nonneg lmax)
       + (if 0 < lmax \<and> negative_m then card (sph_pairs_neg (lmax - 1)) else 0)"

text \<open>The factorials \<open>0!\<close> to \<open>l!\<close>, as \<^verbatim>\<open>unsigned int\<close> values.\<close>

definition factorials_mod32 :: "uint \<Rightarrow> uint list" where
  "factorials_mod32 l = map (\<lambda>i. of_nat (fact i)) [0..<Suc (unat l)]"

text \<open>
  The spherical coordinates of a vector as section 4.1 of the specification
  describes them: azimuth \<open>atan2(y, x)\<close>, moved up by \<open>2\<pi>\<close> when negative; polar
  angle \<open>acos(z / |v|)\<close>, replaced by \<open>0\<close> or \<open>\<pi>\<close> when it is not a number.
\<close>

definition spherical_coordinates ::
  "('a::{zero,plus,times,inverse,ord}, 'q, 'c) collaborators \<Rightarrow> 'a vec3 \<Rightarrow> 'a \<times> 'a" where
  "spherical_coordinates K v =
     (let magR = sqrt_f K (dot v v);
          theta = atan2_f K (vy v) (vx v);
          theta = (if theta < 0 then add_2_M_PI K theta else theta);
          phi = acos_f K (vz v / magR);
          phi = (if isnan_f K phi then (if vz v > 0 then 0 else M_PI_f K) else phi)
      in (phi, theta))"



text \<open>
  The inertia-like tensor of the specification: over the bonds of \<open>i\<close> from its
  first bond on, at most \<open>maxNeighborsPerParticle\<close> of them, each wrapped
  displacement adds \<open>|rvec|\<^sup>2\<close> to the diagonal and has its outer product
  subtracted from every entry. The products of two different components are
  written in the order of the source, smaller index first.
\<close>

definition vcomp :: "'a vec3 \<Rightarrow> nat \<Rightarrow> 'a" where
  "vcomp v k = (if k = 0 then vx v else if k = 1 then vy v else vz v)"

definition bonds_of :: "NeighborList \<Rightarrow> uint \<Rightarrow> nat \<Rightarrow> nat \<Rightarrow> nat list" where
  "bonds_of nlist nNeigh i bond =
     takeWhile (\<lambda>b. b < getNumBonds nlist \<and> getNeighbors nlist (2 * b) = i)
       [bond..<bond + unat nNeigh]"

definition bond_vector ::
  "'a::minus Box \<Rightarrow> NeighborList \<Rightarrow> (nat \<Rightarrow> 'a vec3) \<Rightarrow> 'a vec3 \<Rightarrow> nat \<Rightarrow> 'a vec3" where
  "bond_vector box nlist r r_i = (\<lambda>b. wrap box (vsub (r (getNeighbors nlist (2 * b + 1))) r_i))"

definition outer_tensor :: "'a::{plus,minus,times} mat33 \<Rightarrow> 'a vec3 \<Rightarrow> 'a mat33" where
  "outer_tensor T rvec =
     (\<lambda>ii jj. if ii < 3 \<and> jj < 3
               then if ii = jj then (T ii ii + dot rvec rvec) - vcomp rvec ii * vcomp rvec ii
                    else T ii jj - vcomp rvec (min ii jj) * vcomp rvec (max ii jj)
               else T ii jj)"

definition neighborhood_tensor ::
  "'a::{zero,plus,minus,times} Box \<Rightarrow> NeighborList \<Rightarrow> uint \<Rightarrow> (nat \<Rightarrow> 'a vec3) \<Rightarrow> 'a vec3 \<Rightarrow>
     nat \<Rightarrow> nat \<Rightarrow> 'a mat33" where
  "neighborhood_tensor box nlist nNeigh r r_i i bond =
     foldl outer_tensor (\<lambda>ii jj. 0) (map (bond_vector box nlist r r_i) (bonds_of nlist nNeigh i bond))"

section \<open>A concrete system\<close>

text \<open>
  A small system on which the model is run: exact real arithmetic (no value is
  not-a-number), the identity box, an eigensolver for diagonal tensors, the
  harmonic of degree 0 (a constant), one reference particle at the origin and
  the particles \<open>j\<close> at \<open>(j, 0, 0)\<close>; \<open>star_nlist nref np B\<close> bonds reference
  particle \<open>0\<close> to the particles \<open>1\<close> to \<open>B\<close> and validates against \<open>(nref, np)\<close>.
\<close>

definition K_test :: "(real, unit, complex) collaborators" where
  "K_test =
     \<lparr>diagonalize33SymmetricMatrix = (\<lambda>T. (\<lambda>k. T k k, \<lambda>ii jj. if ii = jj then 1 else 0)),
      rotmat3_conj = (\<lambda>q. Rotmat3 (Vec3 1 0 0) (Vec3 0 1 0) (Vec3 0 0 1)),
      sqrt_f = sqrt,
      atan2_f = (\<lambda>y x. if 0 < x then arctan (y / x)
                        else if x < 0 \<and> 0 \<le> y then arctan (y / x) + pi
                        else if x < 0 then arctan (y / x) - pi
                        else if 0 < y then pi / 2 else if y < 0 then - pi / 2 else 0),
      acos_f = arccos,
      isnan_f = (\<lambda>x. False),
      add_2_M_PI = (\<lambda>theta. theta + 2 * pi),
      M_PI_f = pi,
      sph_eval = (\<lambda>lmax phi theta negative_m. if lmax = 0 then [1] else [])\<rparr>"

definition box_test :: "real Box" where
  "box_test = \<lparr>wrap = (\<lambda>v. v)\<rparr>"

definition star_nlist :: "nat \<Rightarrow> nat \<Rightarrow> nat \<Rightarrow> NeighborList" where
  "star_nlist nref np B =
     \<lparr>validate = (\<lambda>Nref Np. Nref = nref \<and> Np = np),
      getNeighbors = (\<lambda>k. if even k then 0 else Suc (k div 2)),
      getNumBonds = B,
      find_first_index = (\<lambda>i. if i = 0 then 0 else B)\<rparr>"

definition call_test ::
  "nat \<Rightarrow> (nat \<Rightarrow> unit) option \<Rightarrow> LocalDescriptorOrientation \<Rightarrow> complex LocalDescriptors \<Rightarrow>
     outcome \<times> complex LocalDescriptors" where
  "call_test B q_ref orientation s =
     compute K_test box_test (star_nlist 1 4 B) 8 (\<lambda>i. Vec3 0 0 0) 1 (\<lambda>j. Vec3 (of_nat j) 0 0) 4
       q_ref orientation s"

text \<open>
  A second system, whose scalars can be not-a-number: the reals with one more
  value that every operation hands on and that compares false with
  everything, as the not-a-number values of \<^verbatim>\<open>float\<close> do. (There is no
  infinity: a division by zero is not-a-number at once.) Its library functions
  follow the C library: \<^verbatim>\<open>acos\<close> outside \<open>[-1, 1]\<close> and \<^verbatim>\<open>sqrt\<close> below \<open>0\<close> are
  not-a-number. Its evaluator returns the polar angle it is handed as its one
  coefficient, so that the angle can be read off the output array.
\<close>

datatype xreal = Num real | NotANumber

instantiation xreal :: "{zero,one,plus,minus,uminus,times,inverse,ord}"
begin

definition zero_xreal :: xreal where
  "zero_xreal = Num 0"

definition one_xreal :: xreal where
  "one_xreal = Num 1"

definition plus_xreal :: "xreal \<Rightarrow> xreal \<Rightarrow> xreal" where
  "plus_xreal a b = (case (a, b) of (Num x, Num y) \<Rightarrow> Num (x + y) | _ \<Rightarrow> NotANumber)"

definition minus_xreal :: "xreal \<Rightarrow> xreal \<Rightarrow> xreal" where
  "minus_xreal a b = (case (a, b) of (Num x, Num y) \<Rightarrow> Num (x - y) | _ \<Rightarrow> NotANumber)"

definition uminus_xreal :: "xreal \<Rightarrow> xreal" where
  "uminus_xreal a = (case a of Num x \<Rightarrow> Num (- x) | NotANumber \<Rightarrow> NotANumber)"

definition times_xreal :: "xreal \<Rightarrow> xreal \<Rightarrow> xreal" where
  "times_xreal a b = (case (a, b) of (Num x, Num y) \<Rightarrow> Num (x * y) | _ \<Rightarrow> NotANumber)"

definition divide_xreal :: "xreal \<Rightarrow> xreal \<Rightarrow> xreal" where
  "divide_xreal a b =
     (case (a, b) of (Num x, Num y) \<Rightarrow> if y = 0 then NotANumber else Num (x / y)
      | _ \<Rightarrow> NotANumber)"

definition inverse_xreal :: "xreal \<Rightarrow> xreal" where
  "inverse_xreal a =
     (case a of Num x \<Rightarrow> if x = 0 then NotANumber else Num (inverse x)
      | NotANumber \<Rightarrow> NotANumber)"

definition less_xreal :: "xreal \<Rightarrow> xreal \<Rightarrow> bool" where
  "less_xreal a b = (case (a, b) of (Num x, Num y) \<Rightarrow> x < y | _ \<Rightarrow> False)"

definition less_eq_xreal :: "xreal \<Rightarrow> xreal \<Rightarrow> bool" where
  "less_eq_xreal a b = (case (a, b) of (Num x, Num y) \<Rightarrow> x \<le> y | _ \<Rightarrow> False)"

instance ..

end

definition K_nan :: "(xreal, unit, xreal) collaborators" where
  "K_nan =
     \<lparr>diagonalize33SymmetricMatrix = (\<lambda>T. (\<lambda>k. T k k, \<lambda>ii jj. if ii = jj then 1 else 0)),
      rotmat3_conj = (\<lambda>q. Rotmat3 (Vec3 1 0 0) (Vec3 0 1 0) (Vec3 0 0 1)),
      sqrt_f = (\<lambda>a. case a of Num x \<Rightarrow> if 0 \<le> x then Num (sqrt x) else NotANumber
                    | NotANumber \<Rightarrow> NotANumber),
      atan2_f = (\<lambda>a b. case (a, b) of
                    (Num y, Num x) \<Rightarrow>
                      Num (if 0 < x then arctan (y / x)
                           else if x < 0 \<and> 0 \<le> y then arctan (y / x) + pi
                           else if x < 0 then arctan (y / x) - pi
                           else if 0 < y then pi / 2 else if y < 0 then - pi / 2 else 0)
                  | _ \<Rightarrow> NotANumber),
      acos_f = (\<lambda>a. case a of Num x \<Rightarrow> if - 1 \<le> x \<and> x \<le> 1 then Num (arccos x) else NotANumber
                    | NotANumber \<Rightarrow> NotANumber),
      isnan_f = (\<lambda>a. a = NotANumber),
      add_2_M_PI = (\<lambda>a. case a of Num theta \<Rightarrow> Num (theta + 2 * pi) | NotANumber \<Rightarrow> NotANumber),
      M_PI_f = Num pi,
      sph_eval = (\<lambda>lmax phi theta negative_m. if lmax = 0 then [phi] else [])\<rparr>"

definition box_nan :: "xreal Box" where
  "box_nan = \<lparr>wrap = (\<lambda>v. v)\<rparr>"

definition r_nan :: "nat \<Rightarrow> xreal vec3" where
  "r_nan j = (if j = 0 then Vec3 0 0 0 else Vec3 NotANumber 0 1)"

definition call_nan ::
  "LocalDescriptorOrientation \<Rightarrow> xreal LocalDescriptors \<Rightarrow> outcome \<times> xreal LocalDescriptors" where
  "call_nan orientation s =
     compute K_nan box_nan (star_nlist 1 2 1) 8 r_nan 1 r_nan 2 None orientation s"

section \<open>The width of a descriptor\<close>

lemma card_sph_pairs_nonneg: "card (sph_pairs_nonneg L) = (L + 1) * (L + 2) div 2"
proof -
  have "card (sph_pairs_nonneg L) = (\<Sum>l\<in>{0..L}. card {0..int l})"
    unfolding sph_pairs_nonneg_def by (rule card_SigmaI) auto
  also have "\<dots> = (\<Sum>l\<in>{0..L}. Suc l)"
    by (rule sum.cong) (simp_all add: nat_add_distrib)
  also have "\<dots> = \<Sum>{0..L} + Suc L" by (induct L) simp_all
  also have "\<dots> = L * Suc L div 2 + Suc L" by (simp only: gauss_sum_nat)
  also have "\<dots> = (L + 1) * (L + 2) div 2" by simp
  finally show ?thesis .
qed

lemma card_sph_pairs_neg: "card (sph_pairs_neg L) = L * (L + 1) div 2"
proof -
  have "card (sph_pairs_neg L) = (\<Sum>l\<in>{0..L}. card {- int l..<0})"
    unfolding sph_pairs_neg_def by (rule card_SigmaI) auto
  also have "\<dots> = \<Sum>{0..L}" by simp
  also have "\<dots> = L * (L + 1) div 2" by (simp only: gauss_sum_nat Suc_eq_plus1)
  finally show ?thesis .
qed

lemma width_count_closed:
  "width_count L neg = (L + 1) * (L + 2) div 2 + (if 0 < L \<and> neg then L * (L + 1) div 2 else 0)"
  by (simp only: width_count_def card_sph_pairs_nonneg card_sph_pairs_neg)

lemma width_count_small: "L \<le> 65534 \<Longrightarrow> width_count L neg < 2 ^ 32"
proof -
  assume a: "L \<le> 65534"
  have "width_count L neg \<le> (L + 1) * (L + 2) div 2 + L * (L + 1) div 2"
    by (simp add: width_count_closed)
  also have "\<dots> \<le> (65534 + 1) * (65534 + 2) div 2 + 65534 * (65534 + 1) div 2"
    using a by (intro add_mono div_le_mono mult_le_mono) simp_all
  also have "\<dots> < 2 ^ 32" by simp
  finally show ?thesis .
qed

lemma product_fits: "L \<le> 65534 \<Longrightarrow> (L + 1) * (L + 2) < (2::nat) ^ 32"
proof -
  assume a: "L \<le> 65534"
  then have "(L + 1) * (L + 2) \<le> (65534 + 1) * (65534 + 2)"
    by (intro mult_le_mono) simp_all
  also have "\<dots> < (2::nat) ^ 32" by simp
  finally show ?thesis .
qed

lemma unat_sum_of_nat:
  "a + b < 2 ^ 32 \<Longrightarrow> unat (of_nat a + of_nat b :: uint) = a + b"
proof -
  assume "a + b < 2 ^ 32"
  moreover have "of_nat a + of_nat b = (of_nat (a + b) :: uint)" by simp
  ultimately show ?thesis by (simp only: unat_of_nat) simp
qed

text \<open>Up to \<open>lmax = 65534\<close> the width is the count: nothing wraps.\<close>

lemma unat_getSphWidth:
  assumes r: "unat (m_lmax s) \<le> 65534"
  shows "unat (getSphWidth s) = width_count (unat (m_lmax s)) (m_negative_m s)"
proof (cases "0 < m_lmax s \<and> m_negative_m s")
  case True
  let ?L = "unat (m_lmax s)"
  from True have pos: "0 < ?L" by (simp add: word_less_nat_alt)
  then have u: "unat (m_lmax s - 1) = ?L - 1"
    by (simp add: unat_minus_one unat_gt_0[symmetric] del: unat_gt_0)
  from pos have e: "?L - 1 + 1 = ?L" "?L - 1 + 2 = ?L + 1"
    by simp_all
  have p: "(?L + 1) * (?L + 2) < 2 ^ 32" by (rule product_fits[OF r])
  have "?L * (?L + 1) \<le> (?L + 1) * (?L + 2)" by simp
  with p have q: "?L * (?L + 1) < 2 ^ 32" by simp
  have "getSphWidth s = of_nat ((?L + 1) * (?L + 2) div 2) + of_nat (?L * (?L + 1) div 2)"
    using True by (simp only: getSphWidth_def fsph_sphCount_def u e p q if_True simp_thms)
  moreover have "(?L + 1) * (?L + 2) div 2 + ?L * (?L + 1) div 2 < 2 ^ 32"
    using width_count_small[OF r, of True] pos by (simp add: width_count_closed)
  ultimately have "unat (getSphWidth s) = (?L + 1) * (?L + 2) div 2 + ?L * (?L + 1) div 2"
    by (simp only: unat_sum_of_nat)
  then show ?thesis using True pos by (simp add: width_count_closed)
next
  case False
  let ?L = "unat (m_lmax s)"
  have p: "(?L + 1) * (?L + 2) < 2 ^ 32" by (rule product_fits[OF r])
  have "getSphWidth s = of_nat ((?L + 1) * (?L + 2) div 2) + of_nat 0"
    using False by (simp only: getSphWidth_def fsph_sphCount_def p if_True if_False) simp
  moreover have "(?L + 1) * (?L + 2) div 2 + 0 < 2 ^ 32"
    using p by simp
  ultimately have "unat (getSphWidth s) = (?L + 1) * (?L + 2) div 2 + 0"
    by (simp only: unat_sum_of_nat)
  moreover from False have "\<not> (0 < ?L \<and> m_negative_m s)" by (simp add: word_less_nat_alt)
  ultimately show ?thesis by (auto simp: width_count_closed)
qed

lemma width_count_through_pred_closed:
  "width_count_through_pred L neg =
     (L + 1) * (L + 2) div 2 + (if 0 < L \<and> neg then (L - 1) * L div 2 else 0)"
proof (cases "0 < L")
  case True
  then have "L - 1 + 1 = L" by simp
  then show ?thesis
    by (simp add: width_count_through_pred_def card_sph_pairs_nonneg card_sph_pairs_neg)
next
  case False
  then show ?thesis
    by (simp add: width_count_through_pred_def card_sph_pairs_nonneg)
qed

text \<open>
  C2, as the code has it. For every \<open>lmax \<le> 65534\<close> and every \<open>negative_m\<close>,
  \<^verbatim>\<open>getSphWidth()\<close> equals the count of the coefficients \<open>(l, m)\<close> with \<open>m \<ge> 0\<close> for
  \<open>l = 0..lmax\<close>, namely \<open>(lmax+1)(lmax+2)/2\<close>, plus, exactly when \<open>negative_m\<close> is
  set and \<open>lmax > 0\<close>, the count of the coefficients with \<open>m < 0\<close> through degree
  \<open>lmax\<close>, namely \<open>lmax(lmax+1)/2\<close>. (That number is the count of the coefficients
  with \<open>m \<ge> 0\<close> through degree \<open>lmax - 1\<close>, which is how the code obtains it.)
\<close>

theorem C2_getSphWidth_count:
  "(unat (m_lmax s) \<le> 65534 \<longrightarrow>
      unat (getSphWidth s) = width_count (unat (m_lmax s)) (m_negative_m s))
   \<and> width_count L neg = (L + 1) * (L + 2) div 2 + (if 0 < L \<and> neg then L * (L + 1) div 2 else 0)
   \<and> card (sph_pairs_nonneg L) = (L + 1) * (L + 2) div 2
   \<and> card (sph_pairs_neg L) = L * (L + 1) div 2
   \<and> (0 < L \<longrightarrow> card (sph_pairs_neg L) = card (sph_pairs_nonneg (L - 1)))"
proof -
  have "0 < L \<Longrightarrow> card (sph_pairs_neg L) = card (sph_pairs_nonneg (L - 1))"
    by (cases L) (simp_all add: card_sph_pairs_nonneg card_sph_pairs_neg mult.commute)
  then show ?thesis
    using unat_getSphWidth[of s]
    by (simp add: width_count_closed card_sph_pairs_nonneg card_sph_pairs_neg)
qed

text \<open>The theorem at \<open>lmax = 2\<close> with negative orders: nine coefficients.\<close>

theorem C2_getSphWidth_count_witness:
  "unat (2 :: uint) \<le> 65534 \<and> (0::nat) < 2
   \<and> unat (getSphWidth (LocalDescriptors_ctor 2 True :: unit LocalDescriptors)) = 9
   \<and> width_count 2 True = 9 \<and> card (sph_pairs_neg 2) = card (sph_pairs_nonneg 1)"
  using C2_getSphWidth_count [of "LocalDescriptors_ctor 2 True :: unit LocalDescriptors" 2 True]
  by (simp add: LocalDescriptors_ctor_def)

text \<open>
  C2 as stated fails in two places. For every \<open>lmax\<close>: at \<open>lmax = 65535\<close> with
  negative orders the count is \<open>2\<^sup>3\<^sup>2\<close>, which no \<^verbatim>\<open>unsigned int\<close> equals,
  whatever \<^verbatim>\<open>fsph::sphCount\<close> returns there. And the negative orders through
  degree \<open>lmax - 1\<close>: at \<open>lmax = 2\<close> the width is 9, six coefficients with
  \<open>m \<ge> 0\<close> and the three with \<open>m < 0\<close> through degree 2, while through degree 1
  there is one coefficient with \<open>m < 0\<close>, which would make 7.
\<close>

theorem C2_getSphWidth_counterexample:
  "width_count 65535 True = 4294967296
   \<and> unat (getSphWidth (LocalDescriptors_ctor 65535 True :: unit LocalDescriptors)) < 4294967296
   \<and> unat (getSphWidth (LocalDescriptors_ctor 65535 True :: unit LocalDescriptors))
       \<noteq> width_count 65535 True
   \<and> unat (getSphWidth (LocalDescriptors_ctor 2 True :: unit LocalDescriptors)) = 9
   \<and> card (sph_pairs_nonneg 2) = 6 \<and> card (sph_pairs_neg 2) = 3 \<and> card (sph_pairs_neg (2 - 1)) = 1
   \<and> width_count_through_pred 2 True = 7
   \<and> unat (getSphWidth (LocalDescriptors_ctor 2 True :: unit LocalDescriptors))
       \<noteq> width_count_through_pred 2 True"
proof -
  have b: "unat (getSphWidth (LocalDescriptors_ctor 65535 True :: unit LocalDescriptors))
             < 4294967296"
    by (rule order_less_le_trans[OF unsigned_less]) simp
  have w: "unat (getSphWidth (LocalDescriptors_ctor 2 True :: unit LocalDescriptors)) = 9"
    using unat_getSphWidth[of "LocalDescriptors_ctor 2 True :: unit LocalDescriptors"]
    by (simp add: LocalDescriptors_ctor_def width_count_closed)
  show ?thesis
    using b w
    by (simp add: width_count_closed width_count_through_pred_closed card_sph_pairs_nonneg
          card_sph_pairs_neg)
qed

section \<open>The factorial cache\<close>

lemma factorials_loop_exit: "\<not> i \<le> l \<Longrightarrow> factorials_loop i l fs = Some fs"
  by (subst factorials_loop.simps) simp

lemma factorials_loop_step:
  "i \<le> l \<Longrightarrow>
     factorials_loop i l fs = factorials_loop (i + 1) l (fs[unat i := i * fs ! unat (i - 1)])"
  by (subst factorials_loop.simps) simp

text \<open>
  The loop returns whenever \<open>l + 1\<close> does not wrap; the invariant is that the
  entries below \<open>i\<close> are the factorials modulo \<open>2\<^sup>3\<^sup>2\<close>.
\<close>

lemma factorials_loop_correct:
  assumes l: "unat l + 1 < 2 ^ 32"
  shows "n = unat l + 1 - unat i \<Longrightarrow> 1 \<le> unat i \<Longrightarrow> unat i \<le> unat l + 1 \<Longrightarrow>
         length fs = unat l + 1 \<Longrightarrow> (\<forall>k < unat i. fs ! k = of_nat (fact k)) \<Longrightarrow>
         factorials_loop i l fs = Some (factorials_mod32 l)"
proof (induction n arbitrary: i fs)
  case 0
  then have eq: "unat i = unat l + 1" by simp
  then have "\<not> i \<le> l" by (simp add: word_le_nat_alt)
  moreover have "fs = factorials_mod32 l"
    using 0 eq by (intro nth_equalityI) (auto simp: factorials_mod32_def simp del: upt_Suc)
  ultimately show ?case by (simp add: factorials_loop_exit)
next
  case (Suc n)
  then have lt: "unat i \<le> unat l" by simp
  then have le: "i \<le> l" by (simp add: word_le_nat_alt)
  have ui: "unat (i + 1) = unat i + 1"
    using lt l by (simp add: unat_word_ariths)
  have um: "unat (i - 1) = unat i - 1"
    using Suc.prems(2) by (simp add: unat_sub word_le_nat_alt)
  let ?fs = "fs[unat i := i * fs ! unat (i - 1)]"
  have prev: "fs ! (unat i - 1) = of_nat (fact (unat i - 1))"
    using Suc.prems by simp
  have oi: "of_nat (unat i) = i" by simp
  have "i * fs ! unat (i - 1) = of_nat (unat i) * of_nat (fact (unat i - 1))"
    by (simp only: um prev oi)
  also have "\<dots> = of_nat (unat i * fact (unat i - 1))" by simp
  also have "unat i * fact (unat i - 1) = fact (unat i)"
    using Suc.prems(2) by (cases "unat i") simp_all
  finally have new: "i * fs ! unat (i - 1) = of_nat (fact (unat i))" .
  have inv: "\<forall>k < unat (i + 1). ?fs ! k = of_nat (fact k)"
  proof (intro allI impI)
    fix k assume "k < unat (i + 1)"
    then have "k < unat i \<or> k = unat i" using ui by auto
    then show "?fs ! k = of_nat (fact k)"
      using Suc.prems lt new by (auto simp: nth_list_update)
  qed
  have "factorials_loop (i + 1) l ?fs = Some (factorials_mod32 l)"
    using Suc.prems lt ui inv by (intro Suc.IH) simp_all
  then show ?case by (simp add: factorials_loop_step[OF le])
qed

lemma ctor_factorials:
  assumes "l \<noteq> - 1"
  shows "(RotationalAutocorrelation_ctor l :: (error + ('a::zero, 'c) RotationalAutocorrelation) option) =
     Some (Inr \<lparr>m_l = l, m_N = 0, m_Ft = 0, m_RA_array = None, m_factorials = Some (factorials_mod32 l)\<rparr>)"
proof -
  have "unat l \<noteq> 2 ^ 32 - 1"
  proof
    assume "unat l = 2 ^ 32 - 1"
    then have "of_nat (unat l) = (of_nat (2 ^ 32 - 1) :: uint)" by simp
    then have "l = - 1" by simp
    with assms show False by simp
  qed
  moreover have "unat l < 2 ^ 32"
    by (rule order_less_le_trans[OF unsigned_less]) simp
  ultimately have l: "unat l + 1 < 2 ^ 32" by simp
  then have u: "unat (l + 1) = unat l + 1" by (simp add: unat_word_ariths)
  have "factorials_loop 1 l ((replicate (unat l + 1) 0)[0 := 1]) = Some (factorials_mod32 l)"
    by (rule factorials_loop_correct[OF l refl]) simp_all
  then show ?thesis
    by (simp add: RotationalAutocorrelation_ctor_def u)
qed

lemma fact_le_12: "k \<le> 12 \<Longrightarrow> fact k mod 4294967296 = (fact k :: nat)"
proof -
  assume "k \<le> 12"
  then have "(fact k :: nat) \<le> fact 12" by (rule fact_mono)
  also have "(fact 12 :: nat) < 4294967296" by (simp add: fact_numeral)
  finally show ?thesis by simp
qed

lemma factorials_exact:
  "unat l \<le> 12 \<Longrightarrow> map unat (factorials_mod32 l) = map fact [0..<Suc (unat l)]"
  unfolding factorials_mod32_def
  by (auto simp: unat_of_nat fact_le_12 simp del: upt_Suc)

lemma perform_factorials: "m_factorials (perform ip rd s c) = m_factorials s"
  by (cases c) (simp_all add: compute_RA_def Let_def)

lemma foldl_perform_factorials:
  "m_factorials (foldl (perform ip rd) s cs) = m_factorials s"
  by (induction cs arbitrary: s) (simp_all add: perform_factorials)

text \<open>
  C8, as the code has it. For every \<open>l\<close> below \<open>2\<^sup>3\<^sup>2 - 1\<close> the constructor
  returns, and the cache then holds \<open>l + 1\<close> entries, entry \<open>i\<close> being \<open>i!\<close> modulo
  \<open>2\<^sup>3\<^sup>2\<close>; these are the exact factorials when \<open>l \<le> 12\<close>. No sequence of
  operations on the instance changes the cache.
\<close>

theorem C8_factorial_cache:
  assumes "l \<noteq> - 1"
  shows "(RotationalAutocorrelation_ctor l :: (error + ('a::zero, 'c) RotationalAutocorrelation) option) =
           Some (Inr \<lparr>m_l = l, m_N = 0, m_Ft = 0, m_RA_array = None,
                      m_factorials = Some (factorials_mod32 l)\<rparr>)
         \<and> map unat (factorials_mod32 l) = map (\<lambda>i. fact i mod 2 ^ 32) [0..<Suc (unat l)]
         \<and> (unat l \<le> 12 \<longrightarrow> map unat (factorials_mod32 l) = map fact [0..<Suc (unat l)])
         \<and> (RotationalAutocorrelation_ctor l = Some (Inr (s :: ('a, 'c) RotationalAutocorrelation)) \<longrightarrow>
              m_factorials (foldl (perform ip rd) s cs) = Some (factorials_mod32 l))"
proof -
  have a: "map unat (factorials_mod32 l) = map (\<lambda>i. fact i mod 2 ^ 32) [0..<Suc (unat l)]"
    unfolding factorials_mod32_def by (simp add: unat_of_nat del: upt_Suc)
  have b: "m_factorials (foldl (perform ip rd) s cs) = Some (factorials_mod32 l)"
    if h: "RotationalAutocorrelation_ctor l = Some (Inr s)"
  proof -
    from h ctor_factorials[OF assms, where 'a = 'a and 'c = 'c]
    have "s = \<lparr>m_l = l, m_N = 0, m_Ft = 0, m_RA_array = None,
                m_factorials = Some (factorials_mod32 l)\<rparr>" by simp
    then show ?thesis by (simp add: foldl_perform_factorials)
  qed
  show ?thesis
    using ctor_factorials[OF assms, where 'a = 'a and 'c = 'c] a b factorials_exact[of l]
    by blast
qed

text \<open>The theorem at \<open>l = 3\<close>: the cache is \<open>1, 1, 2, 6\<close> and stays so.\<close>

theorem C8_factorial_cache_witness:
  "(3 :: uint) \<noteq> - 1 \<and> unat (3 :: uint) \<le> 12
   \<and> (RotationalAutocorrelation_ctor 3 :: (error + (real, complex) RotationalAutocorrelation) option) =
       Some (Inr \<lparr>m_l = 3, m_N = 0, m_Ft = 0, m_RA_array = None, m_factorials = Some [1, 1, 2, 6]\<rparr>)
   \<and> map unat [1, 1, 2, 6 :: uint] = map fact [0..<Suc (unat (3 :: uint))]
   \<and> m_factorials (foldl (perform (\<lambda>l fs q q'. (0::complex)) (\<lambda>l N arr. (0::real)))
        \<lparr>m_l = 3, m_N = 0, m_Ft = 0, m_RA_array = None, m_factorials = Some [1, 1, 2, 6]\<rparr>
        [Call_getL, Call_compute (\<lambda>i. ()) (\<lambda>i. ()) 2, Call_getN]) = Some [1, 1, 2, 6]"
proof -
  have f: "factorials_mod32 3 = [1, 1, 2, 6]"
    by (simp add: factorials_mod32_def upt_rec fact_numeral)
  have n: "(3 :: uint) \<noteq> - 1" by simp
  show ?thesis
    using C8_factorial_cache [OF n, where 'a = real and 'c = complex
        and s = "\<lparr>m_l = 3, m_N = 0, m_Ft = 0, m_RA_array = None, m_factorials = Some [1, 1, 2, 6]\<rparr>"
        and ip = "\<lambda>l fs q q'. (0::complex)" and rd = "\<lambda>l N arr. (0::real)"
        and cs = "[Call_getL, Call_compute (\<lambda>i. ()) (\<lambda>i. ()) 2, Call_getN]"]
    by (simp add: f upt_rec fact_numeral)
qed

text \<open>
  C8 as stated, for every \<open>l\<close>, fails: after constructing the instance for
  \<open>l = 13\<close>, entry 13 of the cache is \<open>1932053504\<close>, while \<open>13! = 6227020800\<close>.
\<close>

theorem C8_factorial_cache_counterexample:
  "(RotationalAutocorrelation_ctor 13 :: (error + (real, complex) RotationalAutocorrelation) option) =
       Some (Inr \<lparr>m_l = 13, m_N = 0, m_Ft = 0, m_RA_array = None,
                  m_factorials = Some (factorials_mod32 13)\<rparr>)
   \<and> unat (factorials_mod32 13 ! 13) = 1932053504
   \<and> (fact 13 :: nat) = 6227020800
   \<and> unat (factorials_mod32 13 ! 13) \<noteq> fact 13"
proof -
  have n: "(13 :: uint) \<noteq> - 1" by simp
  have "factorials_mod32 13 ! 13 = of_nat (fact 13)"
    unfolding factorials_mod32_def by (subst nth_map) simp_all
  then have "unat (factorials_mod32 13 ! 13) = 1932053504"
    by (simp add: fact_numeral)
  then show ?thesis using ctor_factorials[OF n, where 'a = real and 'c = complex]
    by (simp add: fact_numeral)
qed

text \<open>
  C10. The default constructor initialises no member: the accessors return
  what the storage of the three scalar members happened to hold, whatever it
  is, both shared arrays are empty (the cache pointer is null), and so the
  cache of factorials is not the one the constructor from \<open>l\<close> establishes.
\<close>

theorem C10_default_ctor_unset:
  "getL (RotationalAutocorrelation_default storage_l storage_N storage_Ft) = storage_l
   \<and> getN (RotationalAutocorrelation_default storage_l storage_N storage_Ft) = storage_N
   \<and> getRotationalAutocorrelation (RotationalAutocorrelation_default storage_l storage_N storage_Ft)
       = storage_Ft
   \<and> getRAArray (RotationalAutocorrelation_default storage_l storage_N storage_Ft) = None
   \<and> m_factorials (RotationalAutocorrelation_default storage_l storage_N storage_Ft) = None
   \<and> m_factorials (RotationalAutocorrelation_default storage_l storage_N storage_Ft)
       \<noteq> Some (factorials_mod32 storage_l)"
  by (simp add: RotationalAutocorrelation_default_def getL_def getN_def
        getRotationalAutocorrelation_def getRAArray_def)

section \<open>Outcomes of compute\<close>

lemmas orientation_defs = LocalNeighborhood_def Global_def ParticleLocal_def

lemma compute_invalid:
  "\<not> validate nlist (unat Nref) (unat Np) \<Longrightarrow>
     compute K box nlist nNeigh r_ref Nref r Np q_ref orientation s = (Raised InvalidArgument, s)"
  by (simp add: compute_def)

lemma reallocate_meta:
  "m_Nref (reallocate nlist s) = m_Nref s" "m_nSphs (reallocate nlist s) = m_nSphs s"
  "m_lmax (reallocate nlist s) = m_lmax s" "m_negative_m (reallocate nlist s) = m_negative_m s"
  by (simp_all add: reallocate_def)

lemma compute_raised_meta:
  "compute K box nlist nNeigh r_ref Nref r Np q_ref orientation s = (Raised e, s') \<Longrightarrow>
     m_Nref s' = m_Nref s \<and> m_nSphs s' = m_nSphs s"
  by (auto simp: compute_def Let_def reallocate_meta split: if_splits prod.splits outcome.splits)

lemma compute_returned:
  "compute K box nlist nNeigh r_ref Nref r Np q_ref orientation s = (Returned, s') \<Longrightarrow>
     validate nlist (unat Nref) (unat Np) \<and> m_Nref s' = Nref \<and> m_nSphs s' = of_nat (getNumBonds nlist)
     \<and> m_lmax s' = m_lmax s \<and> m_negative_m s' = m_negative_m s"
  by (auto simp: compute_def Let_def reallocate_meta split: if_splits prod.splits outcome.splits)

lemma restore_array:
  "s\<lparr>m_sphArray := map_option (\<lambda>_. case m_sphArray s of None \<Rightarrow> [] | Some cells \<Rightarrow> cells)
        (m_sphArray s)\<rparr> = s"
  by (cases "m_sphArray s") simp_all

lemma make_frame_unsupported:
  "orientation \<noteq> LocalNeighborhood \<Longrightarrow> orientation \<noteq> ParticleLocal \<Longrightarrow> orientation \<noteq> Global \<Longrightarrow>
     make_frame K box nlist nNeigh r q_ref orientation r_i i bond = Inl UnsupportedMode"
  by (simp add: make_frame_def)

text \<open>
  With an unrecognised mode the body of the first reference particle throws
  before any bond is written: what remains of the call is the reallocation.
\<close>

lemma compute_unsupported:
  assumes "orientation \<noteq> LocalNeighborhood" "orientation \<noteq> ParticleLocal" "orientation \<noteq> Global"
    and "validate nlist (unat Nref) (unat Np)" and "0 < unat Nref"
  shows "compute K box nlist nNeigh r_ref Nref r Np q_ref orientation s
           = (Raised UnsupportedMode, reallocate nlist s)"
proof -
  from \<open>0 < unat Nref\<close> have u: "[0..<unat Nref] = 0 # [1..<unat Nref]"
    by (simp add: upt_conv_Cons)
  show ?thesis
    using assms(1-4)
    by (simp add: compute_def Let_def u compute_particle_def make_frame_unsupported restore_array)
qed

lemma make_frame_q_ref:
  "orientation \<noteq> ParticleLocal \<Longrightarrow>
     make_frame K box nlist nNeigh r q_ref orientation r_i i bond
       = make_frame K box nlist nNeigh r q_ref' orientation r_i i bond"
  by (simp add: make_frame_def)

lemma compute_q_ref:
  "orientation \<noteq> ParticleLocal \<Longrightarrow>
     compute K box nlist nNeigh r_ref Nref r Np q_ref orientation s
       = compute K box nlist nNeigh r_ref Nref r Np q_ref' orientation s"
proof -
  assume a: "orientation \<noteq> ParticleLocal"
  have "compute_particle K box nlist nNeigh r_ref r q_ref orientation
          = compute_particle K box nlist nNeigh r_ref r q_ref' orientation"
    by (intro ext)
      (simp add: compute_particle_def make_frame_q_ref[OF a, where q_ref = q_ref and q_ref' = q_ref'])
  then show ?thesis by (simp add: compute_def)
qed

lemma bond_loop_outcome:
  "fst (bond_loop K box nlist nNeigh r s rot r_i i bond count cells) \<noteq> Raised NullPointer"
proof (induction K box nlist nNeigh r s rot r_i i bond count cells rule: bond_loop.induct)
  case (1 K box nlist nNeigh r s rot r_i i bond count cells)
  show ?case
    apply (subst bond_loop.simps)
    using 1 apply (auto simp: Let_def split: prod.splits option.splits)
    done
qed

lemma parallel_for_outcome:
  "(\<And>i cells. fst (body i cells) \<noteq> Raised e) \<Longrightarrow> fst (parallel_for body br cells) \<noteq> Raised e"
proof (induction br arbitrary: cells)
  case Nil
  then show ?case by simp
next
  case (Cons i br)
  show ?case
  proof (cases "body i cells")
    case (Pair out cells')
    with Cons.prems[of i cells] Cons.IH[OF Cons.prems, of cells'] show ?thesis
      by (cases out) auto
  qed
qed

lemma compute_no_null:
  assumes "orientation \<noteq> ParticleLocal"
  shows "fst (compute K box nlist nNeigh r_ref Nref r Np q_ref orientation s) \<noteq> Raised NullPointer"
proof -
  have body: "fst (compute_particle K box nlist nNeigh r_ref r q_ref orientation s' i cells)
                \<noteq> Raised NullPointer" for s' i cells
    using assms
    by (auto simp: compute_particle_def make_frame_def Let_def bond_loop_outcome)
  have "fst (parallel_for (compute_particle K box nlist nNeigh r_ref r q_ref orientation s')
               br cells) \<noteq> Raised NullPointer" for s' br cells
    by (rule parallel_for_outcome) (rule body)
  then have "parallel_for (compute_particle K box nlist nNeigh r_ref r q_ref orientation s')
               br cells \<noteq> (Raised NullPointer, x)" for s' br cells x
    by (metis fst_conv)
  then show ?thesis
    by (auto simp: compute_def Let_def split: prod.splits outcome.splits)
qed

section \<open>Storage of compute\<close>

lemma copy_to_length: "copy_to cells off vals = Some cells' \<Longrightarrow> length cells' = length cells"
  by (auto simp: copy_to_def split: if_splits)

lemma bond_loop_length:
  "length (snd (bond_loop K box nlist nNeigh r s rot r_i i bond count cells)) = length cells"
proof (induction K box nlist nNeigh r s rot r_i i bond count cells rule: bond_loop.induct)
  case (1 K box nlist nNeigh r s rot r_i i bond count cells)
  show ?case
    apply (subst bond_loop.simps)
    using 1 apply (auto simp: Let_def split: prod.splits option.splits dest: copy_to_length)
    done
qed

lemma compute_particle_length:
  "length (snd (compute_particle K box nlist nNeigh r_ref r q_ref orientation s i cells)) = length cells"
  by (simp add: compute_particle_def Let_def bond_loop_length split: sum.splits)

lemma parallel_for_length:
  "(\<And>i cells. length (snd (body i cells)) = length cells) \<Longrightarrow>
     length (snd (parallel_for body br cells)) = length cells"
proof (induction br arbitrary: cells)
  case Nil
  then show ?case by simp
next
  case (Cons i br)
  show ?case
  proof (cases "body i cells")
    case (Pair out cells')
    with Cons.prems[of i cells] Cons.IH[OF Cons.prems, of cells'] show ?thesis
      by (cases out) auto
  qed
qed

lemma capacity_restore:
  "length cells = length (case m_sphArray s of None \<Rightarrow> [] | Some c \<Rightarrow> c) \<Longrightarrow>
     capacity (s\<lparr>m_sphArray := map_option (\<lambda>_. cells) (m_sphArray s)\<rparr>) = capacity s"
  by (cases "m_sphArray s") (simp_all add: capacity_def)

text \<open>Whatever its outcome, a validated call allocates what the reallocation does.\<close>

lemma compute_storage:
  assumes "validate nlist (unat Nref) (unat Np)"
  shows "allocations (snd (compute K box nlist nNeigh r_ref Nref r Np q_ref orientation s))
           = allocations (reallocate nlist s)"
    and "capacity (snd (compute K box nlist nNeigh r_ref Nref r Np q_ref orientation s))
           = capacity (reallocate nlist s)"
proof -
  let ?s = "reallocate nlist s"
  let ?a = "case m_sphArray ?s of None \<Rightarrow> [] | Some c \<Rightarrow> c"
  let ?p = "parallel_for (compute_particle K box nlist nNeigh r_ref r q_ref orientation ?s)
              [0..<unat Nref] ?a"
  have len: "length (snd ?p) = length ?a"
    by (rule parallel_for_length) (rule compute_particle_length)
  obtain out cells where p: "?p = (out, cells)" by (cases ?p)
  with len have l: "length cells = length ?a" by simp
  show "allocations (snd (compute K box nlist nNeigh r_ref Nref r Np q_ref orientation s))
           = allocations ?s"
    using assms p by (cases out) (simp_all add: compute_def Let_def)
  show "capacity (snd (compute K box nlist nNeigh r_ref Nref r Np q_ref orientation s))
           = capacity ?s"
    using assms p capacity_restore[OF l] by (cases out) (simp_all add: compute_def Let_def capacity_def)
qed

lemma reallocate_storage:
  "allocations (reallocate nlist s)
     = (if unat (m_nSphs s) < getNumBonds nlist then Suc (allocations s) else allocations s)"
  "capacity (reallocate nlist s)
     = (if unat (m_nSphs s) < getNumBonds nlist then getNumBonds nlist * unat (getSphWidth s)
        else capacity s)"
  by (simp_all add: reallocate_def capacity_def)

lemma reallocate_same: "getNumBonds nlist \<le> unat (m_nSphs s) \<Longrightarrow> reallocate nlist s = s"
  by (simp add: reallocate_def)

section \<open>Runs of the concrete system\<close>

lemmas test_defs = call_test_def K_test_def box_test_def star_nlist_def LocalDescriptors_ctor_def

lemmas compute_defs = compute_def reallocate_def compute_particle_def make_frame_def
  bond_loop.simps inertia_loop.simps copy_to_def getSphWidth_def fsph_sphCount_def bond_angles_def
  Let_def orientation_defs upt_rec

lemma replicate_small:
  "replicate 2 x = [x, x]" "replicate 3 x = [x, x, x]"
  by (simp_all add: numeral_2_eq_2 numeral_3_eq_3)

lemma run_3:
  "call_test 3 None Global (LocalDescriptors_ctor 0 False) =
     (Returned, \<lparr>m_lmax = 0, m_negative_m = False, m_Nref = 1, m_nSphs = 3,
                  m_sphArray = Some [1, 1, 1], allocations = 1\<rparr>)"
  by (simp add: test_defs compute_defs replicate_small)

lemma run_3_1:
  "call_test 1 None Global
       \<lparr>m_lmax = 0, m_negative_m = False, m_Nref = 1, m_nSphs = 3,
        m_sphArray = Some [1, 1, 1], allocations = 1\<rparr> =
     (Returned, \<lparr>m_lmax = 0, m_negative_m = False, m_Nref = 1, m_nSphs = 1,
                  m_sphArray = Some [1, 1, 1], allocations = 1\<rparr>)"
  by (simp add: test_defs compute_defs)

lemma run_3_1_2:
  "call_test 2 None Global
       \<lparr>m_lmax = 0, m_negative_m = False, m_Nref = 1, m_nSphs = 1,
        m_sphArray = Some [1, 1, 1], allocations = 1\<rparr> =
     (Returned, \<lparr>m_lmax = 0, m_negative_m = False, m_Nref = 1, m_nSphs = 2,
                  m_sphArray = Some [1, 1], allocations = 2\<rparr>)"
  by (simp add: test_defs compute_defs replicate_small)

lemma run_bad_mode:
  "call_test 2 None 3
       \<lparr>m_lmax = 0, m_negative_m = False, m_Nref = 1, m_nSphs = 1,
        m_sphArray = Some [1, 1, 1], allocations = 1\<rparr> =
     (Raised UnsupportedMode,
      \<lparr>m_lmax = 0, m_negative_m = False, m_Nref = 1, m_nSphs = 1,
       m_sphArray = Some [0, 0], allocations = 2\<rparr>)"
  by (simp add: test_defs compute_defs replicate_small)

lemma run_empty:
  "compute K_test box_test (star_nlist 0 0 0) 8 (\<lambda>i. Vec3 0 0 0) 0 (\<lambda>j. Vec3 0 0 0) 0 None 3
       (LocalDescriptors_ctor 0 False) =
     (Returned, \<lparr>m_lmax = 0, m_negative_m = False, m_Nref = 0, m_nSphs = 0,
                  m_sphArray = None, allocations = 0\<rparr>)"
  by (simp add: test_defs compute_defs)

section \<open>Failed calls\<close>

text \<open>
  C1. When the neighbor list does not validate against \<open>(Nref, Np)\<close>, the call
  fails with InvalidArgument and the engine is exactly what it was: output
  array, stored \<open>Nref\<close> and stored bond count. The stored \<open>Nref\<close> and bond count
  change only when a call returns: any call that throws leaves them as
  they were, and a call that returns stores those of the call.
\<close>

theorem C1_invalid_list_no_mutation:
  assumes "\<not> validate nlist (unat Nref) (unat Np)"
  shows "compute K box nlist nNeigh r_ref Nref r Np q_ref orientation s = (Raised InvalidArgument, s)
         \<and> (compute K' box' nlist' nNeigh' r_ref' Nref' r' Np' q_ref' orientation' s' = (Raised e, t)
              \<longrightarrow> m_Nref t = m_Nref s' \<and> m_nSphs t = m_nSphs s')
         \<and> (compute K'' box'' nlist'' nNeigh'' r_ref'' Nref'' r'' Np'' q_ref'' orientation'' s''
                = (Returned, u)
              \<longrightarrow> m_Nref u = Nref'' \<and> m_nSphs u = of_nat (getNumBonds nlist''))"
proof (intro conjI impI)
  show "compute K box nlist nNeigh r_ref Nref r Np q_ref orientation s = (Raised InvalidArgument, s)"
    by (rule compute_invalid[OF assms])
next
  assume "compute K' box' nlist' nNeigh' r_ref' Nref' r' Np' q_ref' orientation' s' = (Raised e, t)"
  from compute_raised_meta[OF this] show "m_Nref t = m_Nref s'" "m_nSphs t = m_nSphs s'"
    by simp_all
next
  assume "compute K'' box'' nlist'' nNeigh'' r_ref'' Nref'' r'' Np'' q_ref'' orientation'' s''
            = (Returned, u)"
  from compute_returned[OF this] show "m_Nref u = Nref''" "m_nSphs u = of_nat (getNumBonds nlist'')"
    by simp_all
qed

text \<open>
  The theorem on the concrete system: a list for one reference particle called
  with \<open>Nref = 2\<close>, a call that throws for its mode, and a call that returns.
\<close>

theorem C1_invalid_list_no_mutation_witness:
  "\<not> validate (star_nlist 1 4 2) (unat (2 :: uint)) (unat (4 :: uint))
   \<and> compute K_test box_test (star_nlist 1 4 2) 8 (\<lambda>i. Vec3 0 0 0) 2 (\<lambda>j. Vec3 (of_nat j) 0 0) 4
        None Global
        \<lparr>m_lmax = 0, m_negative_m = False, m_Nref = 1, m_nSphs = 1,
         m_sphArray = Some [1, 1, 1], allocations = 1\<rparr>
      = (Raised InvalidArgument,
         \<lparr>m_lmax = 0, m_negative_m = False, m_Nref = 1, m_nSphs = 1,
          m_sphArray = Some [1, 1, 1 :: complex], allocations = 1\<rparr>)
   \<and> fst (call_test 2 None 3
        \<lparr>m_lmax = 0, m_negative_m = False, m_Nref = 1, m_nSphs = 1,
         m_sphArray = Some [1, 1, 1], allocations = 1\<rparr>) = Raised UnsupportedMode
   \<and> m_Nref (snd (call_test 2 None 3
        \<lparr>m_lmax = 0, m_negative_m = False, m_Nref = 1, m_nSphs = 1,
         m_sphArray = Some [1, 1, 1], allocations = 1\<rparr>)) = 1
   \<and> m_nSphs (snd (call_test 2 None 3
        \<lparr>m_lmax = 0, m_negative_m = False, m_Nref = 1, m_nSphs = 1,
         m_sphArray = Some [1, 1, 1], allocations = 1\<rparr>)) = 1
   \<and> fst (call_test 3 None Global (LocalDescriptors_ctor 0 False)) = Returned
   \<and> m_Nref (snd (call_test 3 None Global (LocalDescriptors_ctor 0 False))) = 1
   \<and> m_nSphs (snd (call_test 3 None Global (LocalDescriptors_ctor 0 False))) = 3"
proof -
  have inv: "\<not> validate (star_nlist 1 4 2) (unat (2 :: uint)) (unat (4 :: uint))"
    by (simp add: star_nlist_def)
  show ?thesis
    using inv run_bad_mode run_3
      C1_invalid_list_no_mutation [OF inv, where K = K_test and box = box_test and nNeigh = 8
        and r_ref = "\<lambda>i. Vec3 0 0 0" and r = "\<lambda>j. Vec3 (of_nat j) 0 0" and q_ref = None
        and orientation = Global
        and s = "\<lparr>m_lmax = 0, m_negative_m = False, m_Nref = 1, m_nSphs = 1,
                  m_sphArray = Some [1, 1, 1 :: complex], allocations = 1\<rparr>"
        and K' = K_test and box' = box_test and nlist' = "star_nlist 1 4 2" and nNeigh' = 8
        and r_ref' = "\<lambda>i. Vec3 0 0 0" and Nref' = 1 and r' = "\<lambda>j. Vec3 (of_nat j) 0 0"
        and Np' = 4 and q_ref' = None and orientation' = 3
        and s' = "\<lparr>m_lmax = 0, m_negative_m = False, m_Nref = 1, m_nSphs = 1,
                   m_sphArray = Some [1, 1, 1 :: complex], allocations = 1\<rparr>"
        and K'' = K_test and box'' = box_test and nlist'' = "star_nlist 1 4 3" and nNeigh'' = 8
        and r_ref'' = "\<lambda>i. Vec3 0 0 0" and Nref'' = 1 and r'' = "\<lambda>j. Vec3 (of_nat j) 0 0"
        and Np'' = 4 and q_ref'' = None and orientation'' = Global
        and s'' = "LocalDescriptors_ctor 0 False :: complex LocalDescriptors"]
    by simp
qed

text \<open>
  C4, as the code has it. With a mode value other than the three enumerators, a
  neighbor list that validates and at least one reference particle, the call
  fails with UnsupportedMode; stored \<open>Nref\<close> and stored bond count keep their
  values, and the whole engine, output array included, is untouched when the
  bond count of the call does not exceed the stored one. (The state left
  behind is in every case that of the reallocation step, which precedes the
  loop over the particles.)
\<close>

theorem C4_unsupported_mode:
  assumes "orientation \<noteq> LocalNeighborhood" "orientation \<noteq> ParticleLocal" "orientation \<noteq> Global"
    and "validate nlist (unat Nref) (unat Np)" and "0 < unat Nref"
  shows "compute K box nlist nNeigh r_ref Nref r Np q_ref orientation s
           = (Raised UnsupportedMode, reallocate nlist s)
         \<and> m_Nref (reallocate nlist s) = m_Nref s \<and> m_nSphs (reallocate nlist s) = m_nSphs s
         \<and> (getNumBonds nlist \<le> unat (m_nSphs s) \<longrightarrow>
              compute K box nlist nNeigh r_ref Nref r Np q_ref orientation s
                = (Raised UnsupportedMode, s))"
  using compute_unsupported[OF assms, of K box nNeigh r_ref r q_ref s]
  by (simp add: reallocate_meta reallocate_same)

text \<open>The theorem on the concrete system: mode 3, one bond, three stored.\<close>

theorem C4_unsupported_mode_witness:
  "(3 :: nat) \<noteq> LocalNeighborhood \<and> (3 :: nat) \<noteq> ParticleLocal \<and> (3 :: nat) \<noteq> Global
   \<and> validate (star_nlist 1 4 1) (unat (1 :: uint)) (unat (4 :: uint)) \<and> 0 < unat (1 :: uint)
   \<and> getNumBonds (star_nlist 1 4 1) \<le> unat (3 :: uint)
   \<and> call_test 1 None 3
        \<lparr>m_lmax = 0, m_negative_m = False, m_Nref = 1, m_nSphs = 3,
         m_sphArray = Some [1, 1, 1], allocations = 1\<rparr>
      = (Raised UnsupportedMode,
         \<lparr>m_lmax = 0, m_negative_m = False, m_Nref = 1, m_nSphs = 3,
          m_sphArray = Some [1, 1, 1], allocations = 1\<rparr>)"
proof -
  have m: "(3 :: nat) \<noteq> LocalNeighborhood" "(3 :: nat) \<noteq> ParticleLocal" "(3 :: nat) \<noteq> Global"
    by (simp_all add: orientation_defs)
  have v: "validate (star_nlist 1 4 1) (unat (1 :: uint)) (unat (4 :: uint))"
    by (simp add: star_nlist_def)
  have n: "0 < unat (1 :: uint)" by simp
  show ?thesis
    using m v n
      C4_unsupported_mode [OF m v n, where K = K_test and box = box_test and nNeigh = 8
        and r_ref = "\<lambda>i. Vec3 0 0 0" and r = "\<lambda>j. Vec3 (of_nat j) 0 0" and q_ref = None
        and s = "\<lparr>m_lmax = 0, m_negative_m = False, m_Nref = 1, m_nSphs = 3,
                  m_sphArray = Some [1, 1, 1 :: complex], allocations = 1\<rparr>"]
    by (simp add: call_test_def star_nlist_def reallocate_def)
qed

text \<open>
  C4 as stated fails twice. On the engine left by calls with three bonds and
  then one, a call with mode 3 and two bonds fails with UnsupportedMode, but
  the array of results \<open>1, 1, 1\<close> has been replaced by a new one; and with no
  reference particle at all the call with mode 3 returns.
\<close>

theorem C4_unsupported_mode_counterexample:
  "(3 :: nat) \<noteq> LocalNeighborhood \<and> (3 :: nat) \<noteq> ParticleLocal \<and> (3 :: nat) \<noteq> Global
   \<and> call_test 2 None 3
        \<lparr>m_lmax = 0, m_negative_m = False, m_Nref = 1, m_nSphs = 1,
         m_sphArray = Some [1, 1, 1], allocations = 1\<rparr>
      = (Raised UnsupportedMode,
         \<lparr>m_lmax = 0, m_negative_m = False, m_Nref = 1, m_nSphs = 1,
          m_sphArray = Some [0, 0], allocations = 2\<rparr>)
   \<and> fst (compute K_test box_test (star_nlist 0 0 0) 8 (\<lambda>i. Vec3 0 0 0) 0 (\<lambda>j. Vec3 0 0 0) 0
            None 3 (LocalDescriptors_ctor 0 False)) = Returned"
  using run_bad_mode run_empty by (simp add: orientation_defs)

section \<open>The reference orientations\<close>

text \<open>
  C9. In the modes LocalNeighborhood and Global the result of \<^verbatim>\<open>compute\<close>,
  outcome and engine, is the same for any two arrays of reference
  orientations, the null pointer included, and the call never reads through
  the pointer: \<open>q_ref\<close> is used on the ParticleLocal branch only.
\<close>

theorem C9_q_ref_unused:
  assumes "orientation = LocalNeighborhood \<or> orientation = Global"
  shows "compute K box nlist nNeigh r_ref Nref r Np q_ref orientation s
           = compute K box nlist nNeigh r_ref Nref r Np q_ref' orientation s
         \<and> compute K box nlist nNeigh r_ref Nref r Np q_ref orientation s
           = compute K box nlist nNeigh r_ref Nref r Np None orientation s
         \<and> fst (compute K box nlist nNeigh r_ref Nref r Np q_ref orientation s) \<noteq> Raised NullPointer"
proof -
  from assms have a: "orientation \<noteq> ParticleLocal"
    by (auto simp: orientation_defs)
  show ?thesis
    using compute_q_ref[OF a, of K box nlist nNeigh r_ref Nref r Np q_ref s]
      compute_no_null[OF a, of K box nlist nNeigh r_ref Nref r Np q_ref s]
    by simp
qed

text \<open>The theorem on the concrete system, in mode Global, with and without an array.\<close>

theorem C9_q_ref_unused_witness:
  "(Global = LocalNeighborhood \<or> Global = Global)
   \<and> call_test 2 (Some (\<lambda>i. ())) Global (LocalDescriptors_ctor 0 False)
      = call_test 2 None Global (LocalDescriptors_ctor 0 False)
   \<and> fst (call_test 2 (Some (\<lambda>i. ())) Global (LocalDescriptors_ctor 0 False)) \<noteq> Raised NullPointer"
proof -
  have g: "Global = LocalNeighborhood \<or> Global = Global" by simp
  show ?thesis
    using C9_q_ref_unused [OF g, where K = K_test and box = box_test and nlist = "star_nlist 1 4 2"
        and nNeigh = 8 and r_ref = "\<lambda>i. Vec3 0 0 0" and Nref = 1
        and r = "\<lambda>j. Vec3 (of_nat j) 0 0" and Np = 4 and q_ref = "Some (\<lambda>i. ())"
        and q_ref' = None and s = "LocalDescriptors_ctor 0 False :: complex LocalDescriptors"]
    by (auto simp: call_test_def)
qed

section \<open>Reuse of the output array\<close>

text \<open>
  C3, as the code has it. The array is replaced exactly when the bond count of
  a call exceeds the bond count stored by the last call that returned, not
  the largest seen so far, and the new array has room for the new count only.
  For two calls that return, with bond counts \<open>B1\<close> and then \<open>B2 < B1\<close>
  (\<open>B1 < 2\<^sup>3\<^sup>2\<close>), the second allocates nothing, reports exactly \<open>B2\<close> bonds
  and leaves the capacity what the first call left, \<open>B1\<close> times the width if the
  first call allocated. A later call reuses the array exactly when its bond
  count is at most \<open>B2\<close>; otherwise it allocates for its own count.
\<close>

theorem C3_buffer_reuse:
  assumes c1: "compute K_a box_a nl_a nNeigh_a r_ref_a Nref_a r_a Np_a q_ref_a o_a s = (Returned, s_a)"
    and c2: "compute K_b box_b nl_b nNeigh_b r_ref_b Nref_b r_b Np_b q_ref_b o_b s_a = (Returned, s_b)"
    and lt: "getNumBonds nl_b < getNumBonds nl_a"
    and b1: "getNumBonds nl_a < 2 ^ 32"
    and v3: "validate nl_c (unat Nref_c) (unat Np_c)"
  shows "allocations s_b = allocations s_a \<and> capacity s_b = capacity s_a
         \<and> unat (getNSphs s_b) = getNumBonds nl_b
         \<and> (unat (m_nSphs s) < getNumBonds nl_a \<longrightarrow>
              capacity s_a = getNumBonds nl_a * unat (getSphWidth s))
         \<and> allocations (snd (compute K_c box_c nl_c nNeigh_c r_ref_c Nref_c r_c Np_c q_ref_c o_c s_b))
             = (if getNumBonds nl_b < getNumBonds nl_c then Suc (allocations s_b) else allocations s_b)
         \<and> capacity (snd (compute K_c box_c nl_c nNeigh_c r_ref_c Nref_c r_c Np_c q_ref_c o_c s_b))
             = (if getNumBonds nl_b < getNumBonds nl_c then getNumBonds nl_c * unat (getSphWidth s)
                else capacity s_b)"
proof -
  note ret_a = compute_returned[OF c1] and ret_b = compute_returned[OF c2]
  have n1: "unat (m_nSphs s_a) = getNumBonds nl_a"
    using ret_a b1 by (simp add: unat_of_nat)
  have n2: "unat (m_nSphs s_b) = getNumBonds nl_b"
    using ret_b lt b1 by (simp add: unat_of_nat)
  have w: "getSphWidth s_b = getSphWidth s"
    using ret_a ret_b by (simp add: getSphWidth_def)
  have eq_a: "s_a = snd (compute K_a box_a nl_a nNeigh_a r_ref_a Nref_a r_a Np_a q_ref_a o_a s)"
    and eq_b: "s_b = snd (compute K_b box_b nl_b nNeigh_b r_ref_b Nref_b r_b Np_b q_ref_b o_b s_a)"
    using c1 c2 by simp_all
  have a: "allocations s_b = allocations s_a" "capacity s_b = capacity s_a"
    using compute_storage[of nl_b Nref_b Np_b K_b box_b nNeigh_b r_ref_b r_b q_ref_b o_b s_a] ret_b n1 lt
    by (simp_all add: eq_b[symmetric] reallocate_storage)
  have b: "unat (m_nSphs s) < getNumBonds nl_a \<longrightarrow> capacity s_a = getNumBonds nl_a * unat (getSphWidth s)"
    using compute_storage[of nl_a Nref_a Np_a K_a box_a nNeigh_a r_ref_a r_a q_ref_a o_a s] ret_a
    by (simp add: eq_a[symmetric] reallocate_storage)
  have c: "allocations (snd (compute K_c box_c nl_c nNeigh_c r_ref_c Nref_c r_c Np_c q_ref_c o_c s_b))
             = (if getNumBonds nl_b < getNumBonds nl_c then Suc (allocations s_b) else allocations s_b)"
     "capacity (snd (compute K_c box_c nl_c nNeigh_c r_ref_c Nref_c r_c Np_c q_ref_c o_c s_b))
             = (if getNumBonds nl_b < getNumBonds nl_c then getNumBonds nl_c * unat (getSphWidth s)
                else capacity s_b)"
    using compute_storage[OF v3, of K_c box_c nNeigh_c r_ref_c r_c q_ref_c o_c s_b]
    by (simp_all add: reallocate_storage n2 w)
  show ?thesis using a b c n2 by (simp add: getNSphs_def)
qed

text \<open>
  The theorem on the concrete system: calls with three bonds, then one, and a
  third call with one bond again, which reuses the array of three.
\<close>

theorem C3_buffer_reuse_witness:
  "call_test 3 None Global (LocalDescriptors_ctor 0 False) =
     (Returned, \<lparr>m_lmax = 0, m_negative_m = False, m_Nref = 1, m_nSphs = 3,
                  m_sphArray = Some [1, 1, 1], allocations = 1\<rparr>)
   \<and> call_test 1 None Global
        \<lparr>m_lmax = 0, m_negative_m = False, m_Nref = 1, m_nSphs = 3,
         m_sphArray = Some [1, 1, 1], allocations = 1\<rparr> =
     (Returned, \<lparr>m_lmax = 0, m_negative_m = False, m_Nref = 1, m_nSphs = 1,
                  m_sphArray = Some [1, 1, 1], allocations = 1\<rparr>)
   \<and> getNumBonds (star_nlist 1 4 1) < getNumBonds (star_nlist 1 4 3)
   \<and> getNumBonds (star_nlist 1 4 3) < 2 ^ 32
   \<and> validate (star_nlist 1 4 1) (unat (1 :: uint)) (unat (4 :: uint))
   \<and> unat (m_nSphs (LocalDescriptors_ctor 0 False :: complex LocalDescriptors))
        < getNumBonds (star_nlist 1 4 3)
   \<and> capacity \<lparr>m_lmax = 0, m_negative_m = False, m_Nref = 1, m_nSphs = 3,
                m_sphArray = Some [1, 1, 1 :: complex], allocations = 1\<rparr> = 3
   \<and> allocations (snd (call_test 1 None Global
        \<lparr>m_lmax = 0, m_negative_m = False, m_Nref = 1, m_nSphs = 1,
         m_sphArray = Some [1, 1, 1], allocations = 1\<rparr>)) = 1
   \<and> capacity (snd (call_test 1 None Global
        \<lparr>m_lmax = 0, m_negative_m = False, m_Nref = 1, m_nSphs = 1,
         m_sphArray = Some [1, 1, 1], allocations = 1\<rparr>)) = 3"
proof -
  have v: "validate (star_nlist 1 4 1) (unat (1 :: uint)) (unat (4 :: uint))"
    by (simp add: star_nlist_def)
  have lt: "getNumBonds (star_nlist 1 4 1) < getNumBonds (star_nlist 1 4 3)"
    and b: "getNumBonds (star_nlist 1 4 3) < 2 ^ 32"
    by (simp_all add: star_nlist_def)
  show ?thesis
    using run_3 run_3_1 v lt b
      C3_buffer_reuse [OF run_3[unfolded call_test_def] run_3_1[unfolded call_test_def] lt b v,
        where K_c = K_test and box_c = box_test and nNeigh_c = 8 and r_ref_c = "\<lambda>i. Vec3 0 0 0"
          and r_c = "\<lambda>j. Vec3 (of_nat j) 0 0" and q_ref_c = None and o_c = Global]
    by (simp add: call_test_def capacity_def LocalDescriptors_ctor_def getSphWidth_def
          fsph_sphCount_def)
qed

text \<open>
  C3 as stated fails: the capacity is no high-water mark. After calls with
  three bonds and then one, a call with two bonds, below the largest count
  seen, allocates a second array (\<open>allocations\<close> goes from 1 to 2), and the
  capacity shrinks from three elements to two.
\<close>

theorem C3_buffer_reuse_counterexample:
  "call_test 3 None Global (LocalDescriptors_ctor 0 False) =
     (Returned, \<lparr>m_lmax = 0, m_negative_m = False, m_Nref = 1, m_nSphs = 3,
                  m_sphArray = Some [1, 1, 1], allocations = 1\<rparr>)
   \<and> call_test 1 None Global
        \<lparr>m_lmax = 0, m_negative_m = False, m_Nref = 1, m_nSphs = 3,
         m_sphArray = Some [1, 1, 1], allocations = 1\<rparr> =
     (Returned, \<lparr>m_lmax = 0, m_negative_m = False, m_Nref = 1, m_nSphs = 1,
                  m_sphArray = Some [1, 1, 1], allocations = 1\<rparr>)
   \<and> call_test 2 None Global
        \<lparr>m_lmax = 0, m_negative_m = False, m_Nref = 1, m_nSphs = 1,
         m_sphArray = Some [1, 1, 1], allocations = 1\<rparr> =
     (Returned, \<lparr>m_lmax = 0, m_negative_m = False, m_Nref = 1, m_nSphs = 2,
                  m_sphArray = Some [1, 1], allocations = 2\<rparr>)
   \<and> capacity \<lparr>m_lmax = 0, m_negative_m = False, m_Nref = 1, m_nSphs = 1,
                m_sphArray = Some [1, 1, 1 :: complex], allocations = 1\<rparr> = 3
   \<and> capacity \<lparr>m_lmax = 0, m_negative_m = False, m_Nref = 1, m_nSphs = 2,
                m_sphArray = Some [1, 1 :: complex], allocations = 2\<rparr> = 2"
  using run_3 run_3_1 run_3_1_2 by (simp add: capacity_def)

section \<open>Frames\<close>

lemma inertia_step_outer: "inertia_step T rvec = outer_tensor T rvec"
proof (intro ext)
  fix ii jj :: nat
  consider "ii = 0" | "ii = 1" | "ii = 2" | "3 \<le> ii" by linarith
  then show "inertia_step T rvec ii jj = outer_tensor T rvec ii jj"
  proof cases
    case 1
    consider "jj = 0" | "jj = 1" | "jj = 2" | "3 \<le> jj" by linarith
    then show ?thesis using 1
      by cases (simp_all add: inertia_step_def outer_tensor_def Let_def set33_def vcomp_def)
  next
    case 2
    consider "jj = 0" | "jj = 1" | "jj = 2" | "3 \<le> jj" by linarith
    then show ?thesis using 2
      by cases (simp_all add: inertia_step_def outer_tensor_def Let_def set33_def vcomp_def)
  next
    case 3
    consider "jj = 0" | "jj = 1" | "jj = 2" | "3 \<le> jj" by linarith
    then show ?thesis using 3
      by cases (simp_all add: inertia_step_def outer_tensor_def Let_def set33_def vcomp_def)
  next
    case 4
    then show ?thesis
      by (simp add: inertia_step_def outer_tensor_def Let_def set33_def vcomp_def)
  qed
qed

lemma outer_tensor_sym:
  "(\<And>ii jj. T ii jj = T jj ii) \<Longrightarrow> outer_tensor T rvec ii jj = outer_tensor T rvec jj ii"
  by (simp add: outer_tensor_def min.commute max.commute)

lemma foldl_outer_tensor_sym:
  "(\<And>ii jj. T ii jj = T jj ii) \<Longrightarrow> foldl outer_tensor T vs ii jj = foldl outer_tensor T vs jj ii"
proof (induction vs arbitrary: T ii jj)
  case Nil
  then show ?case by simp
next
  case (Cons v vs)
  show ?case
    unfolding foldl_Cons
    by (rule Cons.IH) (rule outer_tensor_sym, rule Cons.prems)
qed

text \<open>
  The loop over \<open>bond_copy\<close> folds the steps over the bonds it passes: those from
  \<open>bond_copy\<close> on that belong to \<open>i\<close>, up to the bound \<open>bond + nNeigh\<close>.
\<close>

lemma inertia_loop_fold:
  "inertia_loop box nlist nNeigh r r_i i bond bond_copy T =
     foldl outer_tensor T (map (bond_vector box nlist r r_i)
       (takeWhile (\<lambda>b. b < getNumBonds nlist \<and> getNeighbors nlist (2 * b) = i)
          [bond_copy..<bond + unat nNeigh]))"
proof (induction box nlist nNeigh r r_i i bond bond_copy T rule: inertia_loop.induct)
  case (1 box nlist nNeigh r r_i i bond bond_copy T)
  show ?case
  proof (cases "bond_copy < getNumBonds nlist \<and> getNeighbors nlist (2 * bond_copy) = i
                  \<and> bond_copy < bond + unat nNeigh")
    case True
    then have u: "[bond_copy..<bond + unat nNeigh] = bond_copy # [Suc bond_copy..<bond + unat nNeigh]"
      by (simp add: upt_conv_Cons)
    have "inertia_loop box nlist nNeigh r r_i i bond bond_copy T =
            inertia_loop box nlist nNeigh r r_i i bond (Suc bond_copy)
              (inertia_step T (bond_vector box nlist r r_i bond_copy))"
      by (subst inertia_loop.simps) (simp add: True Let_def bond_vector_def)
    also have "\<dots> = foldl outer_tensor (inertia_step T (bond_vector box nlist r r_i bond_copy))
            (map (bond_vector box nlist r r_i)
              (takeWhile (\<lambda>b. b < getNumBonds nlist \<and> getNeighbors nlist (2 * b) = i)
                 [Suc bond_copy..<bond + unat nNeigh]))"
      using 1[OF True refl refl refl] by (simp add: bond_vector_def)
    finally show ?thesis
      using True by (simp add: u inertia_step_outer)
  next
    case False
    then show ?thesis
      apply (subst inertia_loop.simps)
      apply (cases "bond_copy < bond + unat nNeigh")
       apply (auto simp: upt_conv_Cons)
      done
  qed
qed

lemma bonds_of_props:
  "length (bonds_of nlist nNeigh i bond) \<le> unat nNeigh"
  "b \<in> set (bonds_of nlist nNeigh i bond) \<Longrightarrow>
     bond \<le> b \<and> b < getNumBonds nlist \<and> getNeighbors nlist (2 * b) = i"
proof -
  have "length (bonds_of nlist nNeigh i bond) \<le> length [bond..<bond + unat nNeigh]"
    unfolding bonds_of_def by (rule length_takeWhile_le)
  then show "length (bonds_of nlist nNeigh i bond) \<le> unat nNeigh" by simp
next
  assume b: "b \<in> set (bonds_of nlist nNeigh i bond)"
  then have "b \<in> set [bond..<bond + unat nNeigh]"
    unfolding bonds_of_def by (rule set_takeWhileD[THEN conjunct1])
  moreover have "b < getNumBonds nlist \<and> getNeighbors nlist (2 * b) = i"
    using b unfolding bonds_of_def by (rule set_takeWhileD[THEN conjunct2])
  ultimately show "bond \<le> b \<and> b < getNumBonds nlist \<and> getNeighbors nlist (2 * b) = i"
    by simp
qed

lemma make_frame_local:
  "make_frame K box nlist nNeigh r q_ref LocalNeighborhood r_i i bond =
     (let E = snd (diagonalize33SymmetricMatrix K (neighborhood_tensor box nlist nNeigh r r_i i bond))
      in Inr (Frame (Vec3 (E 0 0) (E 1 0) (E 2 0)) (Vec3 (E 0 1) (E 1 1) (E 2 1))
                    (Vec3 (E 0 2) (E 1 2) (E 2 2))))"
  by (simp add: make_frame_def Let_def inertia_loop_fold neighborhood_tensor_def bonds_of_def)

text \<open>
  C7. In mode LocalNeighborhood the frame of reference particle \<open>i\<close>, whose
  first bond is \<open>bond\<close>, consists of the three eigenvectors the eigensolver
  returns for the tensor of the specification, in the solver's order:
  \<open>rotation_k\<close> is column \<open>k\<close> of the eigenvector array, whatever the
  eigenvalues. The tensor is accumulated over at most \<open>maxNeighborsPerParticle\<close>
  bonds, all of them bonds of \<open>i\<close>; one bond adds \<open>|rvec|\<^sup>2\<close> to each diagonal
  entry and subtracts the product of the two components from every entry;
  the tensor is symmetric.
\<close>

theorem C7_local_neighborhood_frame:
  "make_frame K box nlist nNeigh r q_ref LocalNeighborhood r_i i bond =
     (let E = snd (diagonalize33SymmetricMatrix K (neighborhood_tensor box nlist nNeigh r r_i i bond))
      in Inr (Frame (Vec3 (E 0 0) (E 1 0) (E 2 0)) (Vec3 (E 0 1) (E 1 1) (E 2 1))
                    (Vec3 (E 0 2) (E 1 2) (E 2 2))))
   \<and> length (bonds_of nlist nNeigh i bond) \<le> unat nNeigh
   \<and> (\<forall>b \<in> set (bonds_of nlist nNeigh i bond).
         bond \<le> b \<and> b < getNumBonds nlist \<and> getNeighbors nlist (2 * b) = i)
   \<and> (ii < 3 \<and> jj < 3 \<longrightarrow>
        inertia_step T rvec ii jj =
          (if ii = jj then (T ii ii + dot rvec rvec) - vcomp rvec ii * vcomp rvec ii
           else T ii jj - vcomp rvec (min ii jj) * vcomp rvec (max ii jj)))
   \<and> neighborhood_tensor box nlist nNeigh r r_i i bond ii jj
       = neighborhood_tensor box nlist nNeigh r r_i i bond jj ii"
proof -
  have sym: "neighborhood_tensor box nlist nNeigh r r_i i bond ii jj
       = neighborhood_tensor box nlist nNeigh r r_i i bond jj ii"
    unfolding neighborhood_tensor_def by (rule foldl_outer_tensor_sym) simp
  have step: "ii < 3 \<and> jj < 3 \<longrightarrow>
        inertia_step T rvec ii jj =
          (if ii = jj then (T ii ii + dot rvec rvec) - vcomp rvec ii * vcomp rvec ii
           else T ii jj - vcomp rvec (min ii jj) * vcomp rvec (max ii jj))"
    by (simp add: inertia_step_outer outer_tensor_def)
  have len: "length (bonds_of nlist nNeigh i bond) \<le> unat nNeigh"
    by (rule bonds_of_props(1))
  have mem: "\<forall>b \<in> set (bonds_of nlist nNeigh i bond).
         bond \<le> b \<and> b < getNumBonds nlist \<and> getNeighbors nlist (2 * b) = i"
    using bonds_of_props(2) by blast
  show ?thesis
    using make_frame_local[of K box nlist nNeigh r q_ref r_i i bond] sym step len mem
    by blast
qed

text \<open>
  The theorem on the concrete system: two neighbours at \<open>(1, 0, 0)\<close> and
  \<open>(2, 0, 0)\<close> give the bonds 0 and 1 and the tensor \<open>diag (0, 5, 5)\<close>.
\<close>

theorem C7_local_neighborhood_frame_witness:
  "bonds_of (star_nlist 1 4 2) 8 0 0 = [0, 1]
   \<and> (0 :: nat) < 3 \<and> (1 :: nat) < 3
   \<and> inertia_step (\<lambda>ii jj. 0) (Vec3 1 2 3 :: real vec3) 0 1 = - 2
   \<and> neighborhood_tensor box_test (star_nlist 1 4 2) 8 (\<lambda>j. Vec3 (of_nat j) 0 0) (Vec3 0 0 0)
        0 0 1 1 = 5
   \<and> neighborhood_tensor box_test (star_nlist 1 4 2) 8 (\<lambda>j. Vec3 (of_nat j) 0 0) (Vec3 0 0 0)
        0 0 0 1 = 0
   \<and> make_frame K_test box_test (star_nlist 1 4 2) 8 (\<lambda>j. Vec3 (of_nat j) 0 0) None
        LocalNeighborhood (Vec3 0 0 0) 0 0
      = Inr (Frame (Vec3 1 0 0) (Vec3 0 1 0) (Vec3 0 0 1))"
proof -
  have b: "bonds_of (star_nlist 1 4 2) 8 0 0 = [0, 1]"
    by (simp add: bonds_of_def star_nlist_def upt_rec)
  have t: "neighborhood_tensor box_test (star_nlist 1 4 2) 8 (\<lambda>j. Vec3 (of_nat j) 0 0)
             (Vec3 0 0 0) 0 0 1 1 = (5 :: real)"
    by (simp add: neighborhood_tensor_def bonds_of_def star_nlist_def box_test_def bond_vector_def
          outer_tensor_def vcomp_def dot_def vsub_def upt_rec)
  have u: "neighborhood_tensor box_test (star_nlist 1 4 2) 8 (\<lambda>j. Vec3 (of_nat j) 0 0)
             (Vec3 0 0 0) 0 0 0 1 = (0 :: real)"
    by (simp add: neighborhood_tensor_def bonds_of_def star_nlist_def box_test_def bond_vector_def
          outer_tensor_def vcomp_def dot_def vsub_def upt_rec)
  show ?thesis
    using b t u
      C7_local_neighborhood_frame [of K_test box_test "star_nlist 1 4 2" 8
        "\<lambda>j. Vec3 (of_nat j) 0 0" None "Vec3 0 0 0" 0 0 0 1 "\<lambda>ii jj. 0"
        "Vec3 1 2 3 :: real vec3"]
    by (simp add: K_test_def vcomp_def dot_def)
qed

section \<open>The polar angle\<close>

lemma xreal_arith [simp]:
  "Num a + Num b = Num (a + b)" "NotANumber + x = NotANumber" "x + NotANumber = NotANumber"
  "Num a - Num b = Num (a - b)" "NotANumber - x = NotANumber" "x - NotANumber = NotANumber"
  "Num a * Num b = Num (a * b)" "NotANumber * x = NotANumber" "x * NotANumber = NotANumber"
  "Num a / Num b = (if b = 0 then NotANumber else Num (a / b))"
  "NotANumber / x = NotANumber" "x / NotANumber = NotANumber"
  "- Num a = Num (- a)" "- NotANumber = NotANumber"
  by (simp_all add: plus_xreal_def minus_xreal_def times_xreal_def divide_xreal_def
        uminus_xreal_def split: xreal.splits)

lemma xreal_order [simp]:
  "Num a < Num b \<longleftrightarrow> a < b" "\<not> NotANumber < x" "\<not> x < NotANumber"
  by (simp_all add: less_xreal_def split: xreal.splits)

lemma xreal_consts [simp]: "(0 :: xreal) = Num 0" "(1 :: xreal) = Num 1"
  by (simp_all add: zero_xreal_def one_xreal_def)



section \<open>The global frame\<close>

lemma bond_angles_identity:
  assumes "dot (Vec3 1 0 0) v = vx v" "dot (Vec3 0 1 0) v = vy v" "dot (Vec3 0 0 1) v = vz v"
  shows "bond_angles K (Frame (Vec3 1 0 0) (Vec3 0 1 0) (Vec3 0 0 1)) v = spherical_coordinates K v"
  using assms by (simp add: bond_angles_def spherical_coordinates_def Let_def)

text \<open>One turn of the bond loop, for a bond that passes the loop condition.\<close>

lemma bond_loop_step:
  assumes "bond < getNumBonds nlist" "getNeighbors nlist (2 * bond) = i" "count < unat nNeigh"
  shows "bond_loop K box nlist nNeigh r s rot r_i i bond count cells =
     (case bond_angles K rot (bond_vector box nlist r r_i bond) of
        (phi, theta) \<Rightarrow>
          (case copy_to cells (unat (of_nat (bond * unat (getSphWidth s)) :: uint))
                  (sph_eval K (m_lmax s) phi theta (m_negative_m s)) of
             None \<Rightarrow> (Raised OutOfBounds, cells)
           | Some cells' \<Rightarrow>
               bond_loop K box nlist nNeigh r s rot r_i i (Suc bond) (Suc count) cells'))"
  by (subst bond_loop.simps) (simp add: assms Let_def bond_vector_def)

text \<open>
  C6, as the code has it. In mode Global the frame of every reference particle
  is the identity basis, and the body of the particle loop is the bond loop in
  that frame. For every bond the loop processes, the angles \<open>(phi, theta)\<close> it
  hands to the harmonic evaluator are the spherical coordinates of the raw
  wrapped displacement, provided the three products of the displacement with
  the basis vectors return its components (\<open>1 x + 0 y + 0 z = x\<close> and so on), as
  they do for every displacement in exact arithmetic. No law of arithmetic is
  assumed beyond that hypothesis.
\<close>

theorem C6_global_mode_identity:
  assumes exact: "dot (Vec3 1 0 0) (bond_vector box nlist r r_i bond) = vx (bond_vector box nlist r r_i bond)"
      "dot (Vec3 0 1 0) (bond_vector box nlist r r_i bond) = vy (bond_vector box nlist r r_i bond)"
      "dot (Vec3 0 0 1) (bond_vector box nlist r r_i bond) = vz (bond_vector box nlist r r_i bond)"
    and cond: "bond < getNumBonds nlist" "getNeighbors nlist (2 * bond) = i" "count < unat nNeigh"
  shows "make_frame K box nlist nNeigh r q_ref Global r_i i bond
           = Inr (Frame (Vec3 1 0 0) (Vec3 0 1 0) (Vec3 0 0 1))
         \<and> compute_particle K box nlist nNeigh r_ref r q_ref Global s i_p cells_p
             = bond_loop K box nlist nNeigh r s (Frame (Vec3 1 0 0) (Vec3 0 1 0) (Vec3 0 0 1))
                 (r_ref i_p) i_p (find_first_index nlist i_p) 0 cells_p
         \<and> bond_angles K (Frame (Vec3 1 0 0) (Vec3 0 1 0) (Vec3 0 0 1))
               (bond_vector box nlist r r_i bond)
             = spherical_coordinates K (bond_vector box nlist r r_i bond)
         \<and> bond_loop K box nlist nNeigh r s (Frame (Vec3 1 0 0) (Vec3 0 1 0) (Vec3 0 0 1))
               r_i i bond count cells
             = (case spherical_coordinates K (bond_vector box nlist r r_i bond) of
                  (phi, theta) \<Rightarrow>
                    (case copy_to cells (unat (of_nat (bond * unat (getSphWidth s)) :: uint))
                            (sph_eval K (m_lmax s) phi theta (m_negative_m s)) of
                       None \<Rightarrow> (Raised OutOfBounds, cells)
                     | Some cells' \<Rightarrow>
                         bond_loop K box nlist nNeigh r s
                           (Frame (Vec3 1 0 0) (Vec3 0 1 0) (Vec3 0 0 1))
                           r_i i (Suc bond) (Suc count) cells'))"
proof (intro conjI)
  show "make_frame K box nlist nNeigh r q_ref Global r_i i bond
          = Inr (Frame (Vec3 1 0 0) (Vec3 0 1 0) (Vec3 0 0 1))"
    by (simp add: make_frame_def orientation_defs)
  then show "compute_particle K box nlist nNeigh r_ref r q_ref Global s i_p cells_p
          = bond_loop K box nlist nNeigh r s (Frame (Vec3 1 0 0) (Vec3 0 1 0) (Vec3 0 0 1))
              (r_ref i_p) i_p (find_first_index nlist i_p) 0 cells_p"
    by (simp add: compute_particle_def make_frame_def orientation_defs)
  show a: "bond_angles K (Frame (Vec3 1 0 0) (Vec3 0 1 0) (Vec3 0 0 1))
             (bond_vector box nlist r r_i bond)
           = spherical_coordinates K (bond_vector box nlist r r_i bond)"
    by (rule bond_angles_identity[OF exact])
  show "bond_loop K box nlist nNeigh r s (Frame (Vec3 1 0 0) (Vec3 0 1 0) (Vec3 0 0 1))
               r_i i bond count cells
             = (case spherical_coordinates K (bond_vector box nlist r r_i bond) of
                  (phi, theta) \<Rightarrow>
                    (case copy_to cells (unat (of_nat (bond * unat (getSphWidth s)) :: uint))
                            (sph_eval K (m_lmax s) phi theta (m_negative_m s)) of
                       None \<Rightarrow> (Raised OutOfBounds, cells)
                     | Some cells' \<Rightarrow>
                         bond_loop K box nlist nNeigh r s
                           (Frame (Vec3 1 0 0) (Vec3 0 1 0) (Vec3 0 0 1))
                           r_i i (Suc bond) (Suc count) cells'))"
    by (simp only: bond_loop_step[OF cond] a)
qed

text \<open>
  The theorem on the first concrete system: the bond from the origin to
  \<open>(1, 0, 0)\<close>, whose spherical coordinates are \<open>phi = \<pi>/2\<close> and \<open>theta = 0\<close>.
\<close>

theorem C6_global_mode_identity_witness:
  "bond_vector box_test (star_nlist 1 4 2) (\<lambda>j. Vec3 (of_nat j) 0 0) (Vec3 0 0 0) 0 = Vec3 1 0 0
   \<and> dot (Vec3 1 0 0) (Vec3 1 0 0 :: real vec3) = vx (Vec3 1 0 0 :: real vec3)
   \<and> dot (Vec3 0 1 0) (Vec3 1 0 0 :: real vec3) = vy (Vec3 1 0 0 :: real vec3)
   \<and> dot (Vec3 0 0 1) (Vec3 1 0 0 :: real vec3) = vz (Vec3 1 0 0 :: real vec3)
   \<and> 0 < getNumBonds (star_nlist 1 4 2) \<and> getNeighbors (star_nlist 1 4 2) (2 * 0) = 0
   \<and> 0 < unat (8 :: uint)
   \<and> bond_angles K_test (Frame (Vec3 1 0 0) (Vec3 0 1 0) (Vec3 0 0 1)) (Vec3 1 0 0)
        = spherical_coordinates K_test (Vec3 1 0 0)
   \<and> spherical_coordinates K_test (Vec3 1 0 0) = (pi / 2, 0)"
proof -
  have v: "bond_vector box_test (star_nlist 1 4 2) (\<lambda>j. Vec3 (of_nat j) 0 0) (Vec3 0 0 0) 0
             = Vec3 1 0 0"
    by (simp add: bond_vector_def box_test_def star_nlist_def vsub_def)
  have e: "dot (Vec3 1 0 0) (Vec3 1 0 0 :: real vec3) = vx (Vec3 1 0 0 :: real vec3)"
    "dot (Vec3 0 1 0) (Vec3 1 0 0 :: real vec3) = vy (Vec3 1 0 0 :: real vec3)"
    "dot (Vec3 0 0 1) (Vec3 1 0 0 :: real vec3) = vz (Vec3 1 0 0 :: real vec3)"
    by (simp_all add: dot_def)
  have c: "0 < getNumBonds (star_nlist 1 4 2)" "getNeighbors (star_nlist 1 4 2) (2 * 0) = 0"
    "0 < unat (8 :: uint)"
    by (simp_all add: star_nlist_def)
  have sc: "spherical_coordinates K_test (Vec3 1 0 0) = (pi / 2, 0)"
    by (simp add: spherical_coordinates_def K_test_def dot_def Let_def)
  let ?v = "bond_vector box_test (star_nlist 1 4 2) (\<lambda>j. Vec3 (of_nat j) 0 0) (Vec3 0 0 0) 0"
  have e': "dot (Vec3 1 0 0) ?v = vx ?v" "dot (Vec3 0 1 0) ?v = vy ?v" "dot (Vec3 0 0 1) ?v = vz ?v"
    by (simp_all only: v e)
  show ?thesis
    using v e c sc
      C6_global_mode_identity [OF e' c, where K = K_test and s = "LocalDescriptors_ctor 0 False"
        and cells = "[0, 0 :: complex]"]
    by simp
qed

text \<open>
  C6 as stated, for every bond, fails where a component of the displacement is
  not-a-number. On the second system, for the displacement
  \<open>(not-a-number, 0, 1)\<close>, the identity frame makes the local \<open>z\<close> not-a-number
  and the evaluator is handed the polar angle \<^verbatim>\<open>M_PI\<close> (the array of the
  engine holds it), while the polar angle of the displacement itself, whose
  \<open>z\<close> is \<open>1 > 0\<close>, is \<open>0\<close>.
\<close>

theorem C6_global_mode_identity_counterexample:
  "call_nan Global (LocalDescriptors_ctor 0 False) =
     (Returned, \<lparr>m_lmax = 0, m_negative_m = False, m_Nref = 1, m_nSphs = 1,
                  m_sphArray = Some [Num pi], allocations = 1\<rparr>)
   \<and> bond_vector box_nan (star_nlist 1 2 1) r_nan (Vec3 0 0 0) 0 = Vec3 NotANumber (Num 0) (Num 1)
   \<and> fst (bond_angles K_nan (Frame (Vec3 1 0 0) (Vec3 0 1 0) (Vec3 0 0 1))
            (Vec3 NotANumber (Num 0) (Num 1))) = Num pi
   \<and> fst (spherical_coordinates K_nan (Vec3 NotANumber (Num 0) (Num 1))) = Num 0
   \<and> Num pi \<noteq> Num 0"
  by (simp add: call_nan_def r_nan_def K_nan_def box_nan_def star_nlist_def LocalDescriptors_ctor_def
        compute_defs replicate_small bond_vector_def spherical_coordinates_def dot_def vsub_def)

end
